theory Spec2Isabelle
  imports Complex_Main "HOL-Library.Sublist" "HOL-Library.Char_ord" "HOL-Library.List_Lexorder"
begin

section \<open>Python values as the pipeline uses them\<close>

text \<open>
  Every entity of the repository is a Python dict read with \<^verbatim>\<open>d.get(key)\<close> or
  \<^verbatim>\<open>d.get(key, default)\<close>. A field is modelled as an option: \<open>None\<close> is the absent key.
  Strings are byte strings, and the string operations are modelled on ASCII text:
  \<^verbatim>\<open>str.lower\<close> and \<^verbatim>\<open>str.upper\<close> map the 26 letters, \<^verbatim>\<open>str.split\<close> splits at the ASCII
  separators, and \<^verbatim>\<open>len\<close> counts bytes. On text outside ASCII Python also folds other
  letters, splits at other spaces and counts code points.
\<close>

definition truthy :: "string option \<Rightarrow> bool" where
  "truthy v = (case v of None \<Rightarrow> False | Some s \<Rightarrow> s \<noteq> [])"

definition get_str :: "string option \<Rightarrow> string \<Rightarrow> string" where
  "get_str v d = (case v of None \<Rightarrow> d | Some s \<Rightarrow> s)"

definition get_int :: "int option \<Rightarrow> int \<Rightarrow> int" where
  "get_int v d = (case v of None \<Rightarrow> d | Some i \<Rightarrow> i)"

definition lower_char :: "char \<Rightarrow> char" where
  "lower_char c =
     (case map_of (zip ''ABCDEFGHIJKLMNOPQRSTUVWXYZ'' ''abcdefghijklmnopqrstuvwxyz'') c of
        Some d \<Rightarrow> d
      | None \<Rightarrow> c)"

definition lower :: "string \<Rightarrow> string" where
  "lower s = map lower_char s"

datatype py_error = AttributeError | TypeError | KeyError

section \<open>Entities\<close>

text \<open>
  \<^verbatim>\<open>PaperProvider\<close> stores \<^verbatim>\<open>paper["year"] = None\<close> when the year cannot be parsed, so the
  year of a paper is absent, \<^verbatim>\<open>None\<close> or an integer.
\<close>

datatype year_field = YearAbsent | YearNone | YearInt int

record paper =
  paper_title :: "string option"
  paper_abstract :: "string option"
  paper_doi :: "string option"
  paper_authors :: "string list option"
  paper_year :: year_field
  paper_trl :: "int option"

record patent =
  patent_number :: "string option"
  patent_title :: "string option"
  patent_abstract :: "string option"
  patent_filing_date :: "string option"
  patent_status :: "string option"
  patent_trl :: "int option"

record distributor =
  dist_stock :: "int option"
  dist_region :: "string option"

record component =
  part_number :: "string option"
  manufacturer :: "string option"
  category :: "string option"
  lifecycle :: "string option"
  availability :: "(string \<times> distributor) list option"
  datasheet_url :: "string option"
  specifications :: "(string \<times> string) list option"
  applications :: "string list option"
  component_trl :: "int option"

record supply_chain_record =
  sc_part_number :: "string option"
  sc_lifecycle :: "string option"
  sc_availability :: "(string \<times> distributor) list option"

text \<open>
  A provider response is the dict of \<^verbatim>\<open>BaseProvider._create_response\<close>; its \<^verbatim>\<open>data\<close> is
  \<^verbatim>\<open>None\<close> for a failed fetch and otherwise a dict that may hold the list of records.
\<close>

datatype 'a py_data = DataNone | DataDict "'a list option"

record 'a provider_response =
  resp_provider :: string
  resp_success :: bool
  resp_data :: "'a py_data"
  resp_error :: "string option"
  resp_metadata :: "(string \<times> string) list"
  resp_timestamp :: string

text \<open>
  An entry of \<^verbatim>\<open>raw_results\<close>: the key is absent, or it holds \<^verbatim>\<open>None\<close>, or it holds a provider
  response.
\<close>

datatype 'a raw_entry = EntryAbsent | EntryNone | Entry "'a provider_response"

record raw_results =
  raw_papers :: "paper raw_entry"
  raw_patents :: "patent raw_entry"
  raw_components :: "component raw_entry"
  raw_supply_chain :: "supply_chain_record raw_entry"

record cross_refs =
  paper_to_patent :: "(string option \<times> string option) list"
  patent_to_component :: "(string option \<times> string option) list"
  paper_to_component :: "(string option \<times> string option) list"

record results =
  papers :: "paper list"
  patents :: "patent list"
  components :: "component list"
  supply_chain :: "supply_chain_record list"
  cross_references :: "cross_refs option"
  component_clusters :: "(string \<times> component list) list option"

section \<open>Stage 1: deduplication\<close>

text \<open>
  \<^verbatim>\<open>hashlib.md5(...).hexdigest()\<close> is library code: the digest is a parameter.
\<close>

definition paper_identifier :: "(string \<Rightarrow> string) \<Rightarrow> paper \<Rightarrow> string" where
  "paper_identifier md5_hexdigest p =
     (case paper_doi p of
        Some d \<Rightarrow> if d \<noteq> [] then d else md5_hexdigest (lower (get_str (paper_title p) ''''))
      | None \<Rightarrow> md5_hexdigest (lower (get_str (paper_title p) '''')))"

fun deduplicate_papers_loop :: "(string \<Rightarrow> string) \<Rightarrow> string set \<Rightarrow> paper list \<Rightarrow> paper list" where
  "deduplicate_papers_loop md5_hexdigest seen [] = []"
| "deduplicate_papers_loop md5_hexdigest seen (p # ps) =
     (let identifier = paper_identifier md5_hexdigest p in
      if identifier \<notin> seen
      then p # deduplicate_papers_loop md5_hexdigest (insert identifier seen) ps
      else deduplicate_papers_loop md5_hexdigest seen ps)"

definition deduplicate_papers :: "(string \<Rightarrow> string) \<Rightarrow> paper list \<Rightarrow> paper list" where
  "deduplicate_papers md5_hexdigest ps = deduplicate_papers_loop md5_hexdigest {} ps"

fun deduplicate_patents_loop :: "string set \<Rightarrow> patent list \<Rightarrow> patent list" where
  "deduplicate_patents_loop seen [] = []"
| "deduplicate_patents_loop seen (p # ps) =
     (case patent_number p of
        None \<Rightarrow> deduplicate_patents_loop seen ps
      | Some pn \<Rightarrow>
          if pn \<noteq> [] \<and> pn \<notin> seen
          then p # deduplicate_patents_loop (insert pn seen) ps
          else deduplicate_patents_loop seen ps)"

definition deduplicate_patents :: "patent list \<Rightarrow> patent list" where
  "deduplicate_patents ps = deduplicate_patents_loop {} ps"

fun deduplicate_components_loop :: "string set \<Rightarrow> component list \<Rightarrow> component list" where
  "deduplicate_components_loop seen [] = []"
| "deduplicate_components_loop seen (c # cs) =
     (case part_number c of
        None \<Rightarrow> deduplicate_components_loop seen cs
      | Some pn \<Rightarrow>
          if pn \<noteq> [] \<and> pn \<notin> seen
          then c # deduplicate_components_loop (insert pn seen) cs
          else deduplicate_components_loop seen cs)"

definition deduplicate_components :: "component list \<Rightarrow> component list" where
  "deduplicate_components cs = deduplicate_components_loop {} cs"

text \<open>
  \<^verbatim>\<open>results.get(k, {}).get("data", {}).get(name, [])\<close>: an absent response or an absent list
  is the empty list; an entry that is \<^verbatim>\<open>None\<close> and a response whose data is \<^verbatim>\<open>None\<close> raise
  AttributeError.
\<close>

definition get_data_list :: "'a raw_entry \<Rightarrow> py_error + 'a list" where
  "get_data_list r =
     (case r of
        EntryAbsent \<Rightarrow> Inr []
      | EntryNone \<Rightarrow> Inl AttributeError
      | Entry resp \<Rightarrow>
          (case resp_data resp of
             DataNone \<Rightarrow> Inl AttributeError
           | DataDict None \<Rightarrow> Inr []
           | DataDict (Some xs) \<Rightarrow> Inr xs))"

definition deduplicate :: "(string \<Rightarrow> string) \<Rightarrow> raw_results \<Rightarrow> py_error + results" where
  "deduplicate md5_hexdigest raw =
     (case get_data_list (raw_papers raw) of Inl e \<Rightarrow> Inl e | Inr ps \<Rightarrow>
      case get_data_list (raw_patents raw) of Inl e \<Rightarrow> Inl e | Inr pts \<Rightarrow>
      case get_data_list (raw_components raw) of Inl e \<Rightarrow> Inl e | Inr cs \<Rightarrow>
      case get_data_list (raw_supply_chain raw) of Inl e \<Rightarrow> Inl e | Inr scs \<Rightarrow>
        Inr \<lparr> papers = deduplicate_papers md5_hexdigest ps,
              patents = deduplicate_patents pts,
              components = deduplicate_components cs,
              supply_chain = scs,
              cross_references = None,
              component_clusters = None \<rparr>)"

section \<open>First occurrence per key\<close>

text \<open>
  The three passes of stage 1 share one shape: keep a record when its key exists and has
  not been seen. \<open>first_by\<close> is that shape, used to prove their properties once.
\<close>

fun first_by :: "('a \<Rightarrow> 'k option) \<Rightarrow> 'k set \<Rightarrow> 'a list \<Rightarrow> 'a list" where
  "first_by k seen [] = []"
| "first_by k seen (x # xs) =
     (case k x of
        None \<Rightarrow> first_by k seen xs
      | Some i \<Rightarrow> if i \<in> seen then first_by k seen xs else x # first_by k (insert i seen) xs)"

definition paper_key :: "(string \<Rightarrow> string) \<Rightarrow> paper \<Rightarrow> string option" where
  "paper_key md5_hexdigest p = Some (paper_identifier md5_hexdigest p)"

definition patent_key :: "patent \<Rightarrow> string option" where
  "patent_key p = (if truthy (patent_number p) then patent_number p else None)"

definition component_key :: "component \<Rightarrow> string option" where
  "component_key c = (if truthy (part_number c) then part_number c else None)"

section \<open>Text helpers\<close>

fun str_nat :: "nat \<Rightarrow> string" where
  "str_nat n =
     (if n < 10 then [''0123456789'' ! n]
      else str_nat (n div 10) @ [''0123456789'' ! (n mod 10)])"

declare str_nat.simps [simp del]

definition str_int :: "int \<Rightarrow> string" where
  "str_int i = (if i < 0 then CHR ''-'' # str_nat (nat (- i)) else str_nat (nat i))"

fun join :: "string \<Rightarrow> string list \<Rightarrow> string" where
  "join sep [] = []"
| "join sep [x] = x"
| "join sep (x # y # ys) = x @ sep @ join sep (y # ys)"

text \<open>The Python test \<^verbatim>\<open>a in b\<close> on two strings is \<^term>\<open>sublist a b\<close>.\<close>

definition title_abstract_text :: "string option \<Rightarrow> string option \<Rightarrow> string" where
  "title_abstract_text t a = lower (get_str t '''' @ '' '' @ get_str a '''')"

section \<open>TRLProvider\<close>

definition trl_indicators :: "int \<Rightarrow> string list" where
  "trl_indicators trl =
     (if trl = 1 then [''theoretical'', ''principle'', ''basic research'', ''hypothesis'', ''concept'']
      else if trl = 2 then [''concept'', ''feasibility'', ''proposed'', ''initial design'', ''formulated'']
      else if trl = 3 then [''experiment'', ''proof of concept'', ''lab test'', ''prototype'', ''demonstration'']
      else if trl = 4 then [''laboratory validation'', ''component test'', ''bench test'', ''validated'']
      else if trl = 5 then [''field test'', ''relevant environment'', ''pilot'', ''validation'']
      else if trl = 6 then [''prototype demonstration'', ''system test'', ''beta'', ''engineering'']
      else if trl = 7 then [''pre-production'', ''qualification'', ''operational test'', ''prototype'']
      else if trl = 8 then [''production'', ''qualified'', ''certified'', ''compliant'', ''manufacturing'']
      else if trl = 9 then [''deployed'', ''commercial'', ''mass production'', ''proven'', ''operational'']
      else [])"

definition availability_values :: "(string \<times> distributor) list option \<Rightarrow> distributor list" where
  "availability_values av = (case av of None \<Rightarrow> [] | Some kvs \<Rightarrow> map snd kvs)"

definition total_stock :: "(string \<times> distributor) list option \<Rightarrow> int" where
  "total_stock av = sum_list (map (\<lambda>d. get_int (dist_stock d) 0) (availability_values av))"

definition distributor_count :: "(string \<times> distributor) list option \<Rightarrow> nat" where
  "distributor_count av =
     length (filter (\<lambda>d. get_int (dist_stock d) 0 > 0) (availability_values av))"

text \<open>
  \<^verbatim>\<open>TRLProvider._classify_component\<close>. The confidence is a Python float built from the
  literals 0.6, 0.2, 0.1 and 1.0; it is modelled by the exact decimal fractions. With a
  known lifecycle the float sums are the doubles nearest to 0.8, 0.9 and 1.0. Without one,
  for a record that has both availability and a datasheet, the float sum 0.6 + 0.1 + 0.1 is
  0.7999999999999999 where the model has 8/10.
\<close>

definition classify_component :: "component \<Rightarrow> int \<times> rat \<times> string" where
  "classify_component c =
     (let lc = lower (get_str (lifecycle c) '''');
          (trl1, reasons1) =
            (if lc = ''active'' then
               (let ts = total_stock (availability c);
                    dc = distributor_count (availability c) in
                if ts > 1000 \<and> dc \<ge> 2 then
                  (9, [''Mass production: '' @ str_int ts @ '' units across '' @ str_nat dc
                        @ '' distributors''])
                else if ts > 100 then
                  (8, [''Production qualified: '' @ str_int ts @ '' units available''])
                else (7, [''Active lifecycle with limited production'']))
             else if lc = ''nrnd'' then
               (8, [''Not recommended for new design (was production-ready)''])
             else if lc = ''obsolete'' then (9, [''Obsolete (was fully deployed)''])
             else (5, []));
          (trl2, reasons2) =
            (if truthy (datasheet_url c)
             then (if trl1 < 7 then 7 else trl1, reasons1 @ [''Published datasheet available''])
             else (trl1, reasons1));
          specs = (case specifications c of None \<Rightarrow> [] | Some kvs \<Rightarrow> kvs);
          reasons3 =
            (if length specs > 5
             then reasons2 @ [''Comprehensive specifications ('' @ str_nat (length specs)
                               @ '' parameters)'']
             else reasons2);
          apps = (case applications c of None \<Rightarrow> [] | Some xs \<Rightarrow> xs);
          reasons4 =
            (if apps \<noteq> []
             then reasons3 @ [''Documented applications: '' @ str_nat (length apps)]
             else reasons3);
          conf0 = 6 / 10;
          conf1 = (if lc \<in> set [''active'', ''nrnd'', ''obsolete''] then conf0 + 2 / 10 else conf0);
          conf2 = (if availability_values (availability c) \<noteq> [] then conf1 + 1 / 10 else conf1);
          conf3 = (if truthy (datasheet_url c) then conf2 + 1 / 10 else conf2);
          confidence = min conf3 1
      in (trl2, confidence, ''TRL '' @ str_int trl2 @ '': '' @ join ''; '' reasons4))"

text \<open>
  The descending scan of \<^verbatim>\<open>_classify_paper\<close> and \<^verbatim>\<open>_classify_patent\<close>: the first level of
  the list with a matching indicator, together with its matches.
\<close>

definition level_matches :: "string \<Rightarrow> int \<Rightarrow> string list" where
  "level_matches text trl = filter (\<lambda>ind. sublist ind text) (trl_indicators trl)"

fun scan_indicators :: "string \<Rightarrow> int list \<Rightarrow> (int \<times> string list) option" where
  "scan_indicators text [] = None"
| "scan_indicators text (trl # rest) =
     (let matches = level_matches text trl in
      if matches \<noteq> [] then Some (trl, matches) else scan_indicators text rest)"

definition paper_text :: "paper \<Rightarrow> string" where
  "paper_text p = title_abstract_text (paper_title p) (paper_abstract p)"

definition adjusted_papers_note :: string where
  "adjusted_papers_note =
     ''Adjusted: papers typically describe TRL '' @ [CHR 0xE2, CHR 0x89, CHR 0xA4] @ '' 6''"

text \<open>
  \<^verbatim>\<open>TRLProvider._classify_paper\<close>, with the confidence as exact decimal fractions
  (0.5 by default, 0.6 + 0.05 per match, at most 0.8).
\<close>

definition classify_paper :: "paper \<Rightarrow> int \<times> rat \<times> string" where
  "classify_paper p =
     (let text = paper_text p;
          (detected_trl, confidence, reasons) =
            (case scan_indicators text [9, 8, 7, 6, 5, 4, 3, 2, 1] of
               None \<Rightarrow> (2, 5 / 10, [])
             | Some (trl, matches) \<Rightarrow>
                 (trl, 6 / 10 + of_nat (length matches) * (5 / 100),
                  [''Indicators: '' @ join '', '' (take 3 matches)]));
          (detected_trl2, reasons2) =
            (if detected_trl > 6
             then (min detected_trl 6, reasons @ [adjusted_papers_note])
             else (detected_trl, reasons));
          reasons3 = reasons2 @ [''Source: academic paper''];
          confidence2 = min confidence (8 / 10)
      in (detected_trl2, confidence2,
          ''TRL '' @ str_int detected_trl2 @ '': '' @ join ''; '' reasons3))"

section \<open>Stage 5 of the pipeline\<close>

text \<open>
  \<^verbatim>\<open>ResultProcessor._classify_trl\<close>: the stage does not call \<^verbatim>\<open>TRLProvider\<close>; a record that
  has no \<^verbatim>\<open>trl\<close> key gets one from the lifecycle or status alone.
\<close>

definition classify_trl_component :: "component \<Rightarrow> component" where
  "classify_trl_component c =
     (if component_trl c = None
      then (if lifecycle c = Some ''Active''
            then c \<lparr> component_trl := Some 9 \<rparr>
            else c \<lparr> component_trl := Some 7 \<rparr>)
      else c)"

definition classify_trl_paper :: "paper \<Rightarrow> paper" where
  "classify_trl_paper p = (if paper_trl p = None then p \<lparr> paper_trl := Some 2 \<rparr> else p)"

definition classify_trl_patent :: "patent \<Rightarrow> patent" where
  "classify_trl_patent p =
     (if patent_trl p = None
      then p \<lparr> patent_trl := Some (if patent_status p = Some ''Granted'' then 5 else 4) \<rparr>
      else p)"

definition classify_trl :: "results \<Rightarrow> results" where
  "classify_trl r =
     r \<lparr> components := map classify_trl_component (components r),
         papers := map classify_trl_paper (papers r),
         patents := map classify_trl_patent (patents r) \<rparr>"

section \<open>Stage 2: quality filter\<close>

definition filter_quality :: "results \<Rightarrow> results" where
  "filter_quality r =
     \<lparr> papers = filter (\<lambda>p. truthy (paper_title p)
                             \<and> (case paper_authors p of None \<Rightarrow> False | Some a \<Rightarrow> a \<noteq> [])
                             \<and> length (get_str (paper_abstract p) '''') > 50) (papers r),
       patents = filter (\<lambda>p. truthy (patent_title p) \<and> truthy (patent_abstract p)
                              \<and> truthy (patent_number p)) (patents r),
       components = filter (\<lambda>c. truthy (part_number c) \<and> truthy (manufacturer c)) (components r),
       supply_chain = supply_chain r,
       cross_references = None,
       component_clusters = None \<rparr>"

section \<open>Stage 3: relevance filter\<close>

text \<open>
  The query understanding: \<^verbatim>\<open>parameters.query\<close>, \<^verbatim>\<open>parameters.regions\<close> and the list-valued
  entries of \<^verbatim>\<open>entities\<close> (the code skips the entries that are not lists).
\<close>

record query_understanding =
  qu_query :: "string option"
  qu_regions :: "string list option"
  qu_entities :: "(string \<times> string list) list"

definition is_space :: "char \<Rightarrow> bool" where
  "is_space c = (c \<in> set [CHR '' '', CHR 0x09, CHR 0x0A, CHR 0x0B, CHR 0x0C, CHR 0x0D,
                          CHR 0x1C, CHR 0x1D, CHR 0x1E, CHR 0x1F])"

fun split_ws :: "string \<Rightarrow> string \<Rightarrow> string list" where
  "split_ws cur [] = (if cur = [] then [] else [cur])"
| "split_ws cur (c # cs) =
     (if is_space c then (if cur = [] then split_ws [] cs else cur # split_ws [] cs)
      else split_ws (cur @ [c]) cs)"

definition split :: "string \<Rightarrow> string list" where
  "split s = split_ws [] s"

text \<open>
  \<^verbatim>\<open>matches >= len(query_words) * 0.3\<close> compares an integer with a float; the comparison
  is written over the integers, \<open>10 * matches \<ge> 3 * len\<close>.
\<close>

definition is_relevant :: "string \<Rightarrow> string \<Rightarrow> (string \<times> string list) list \<Rightarrow> bool" where
  "is_relevant text query entities =
     (let query_words = split query;
          matches = length (filter (\<lambda>word. sublist word text) query_words)
                    + sum_list (map (\<lambda>(k, entity_list).
                          length (filter (\<lambda>entity. sublist (lower entity) text) entity_list))
                        entities)
      in 10 * matches \<ge> 3 * length query_words)"

definition patent_text :: "patent \<Rightarrow> string" where
  "patent_text p = title_abstract_text (patent_title p) (patent_abstract p)"

definition filter_relevance :: "results \<Rightarrow> query_understanding \<Rightarrow> results" where
  "filter_relevance r q =
     (let query = lower (get_str (qu_query q) '''');
          entities = qu_entities q
      in \<lparr> papers = filter (\<lambda>p. is_relevant (paper_text p) query entities) (papers r),
            patents = filter (\<lambda>p. is_relevant (patent_text p) query entities) (patents r),
            components = components r,
            supply_chain = supply_chain r,
            cross_references = None,
            component_clusters = None \<rparr>)"

section \<open>Stage 4: regional filter\<close>

definition is_regional_match :: "string \<Rightarrow> string list \<Rightarrow> bool" where
  "is_regional_match mfr target_regions =
     (let eu_mfrs = [''infineon'', ''stmicroelectronics'', ''st'', ''nxp'', ''philips''];
          asia_mfrs = [''renesas'', ''rohm'', ''toshiba'', ''panasonic'', ''samsung''];
          mfr_lower = lower mfr
      in if ''EU'' \<in> set target_regions \<and> list_ex (\<lambda>m. sublist m mfr_lower) eu_mfrs then True
         else if ''Asia'' \<in> set target_regions \<and> list_ex (\<lambda>m. sublist m mfr_lower) asia_mfrs
              then True
         else True)"

definition target_regions_of :: "query_understanding \<Rightarrow> string list" where
  "target_regions_of q = (case qu_regions q of None \<Rightarrow> [''EU'', ''Asia''] | Some rs \<Rightarrow> rs)"

definition region_in :: "distributor \<Rightarrow> string list \<Rightarrow> bool" where
  "region_in d target_regions =
     (case dist_region d of None \<Rightarrow> False | Some r \<Rightarrow> r \<in> set target_regions)"

definition filter_regional :: "results \<Rightarrow> query_understanding \<Rightarrow> results" where
  "filter_regional r q =
     (let target_regions = target_regions_of q
      in r \<lparr> components :=
                filter (\<lambda>c. is_regional_match (get_str (manufacturer c) '''') target_regions)
                  (components r),
              supply_chain :=
                filter (\<lambda>sc. list_ex (\<lambda>d. region_in d target_regions)
                                (availability_values (sc_availability sc)))
                  (supply_chain r),
              papers := papers r,
              patents := patents r \<rparr>)"

section \<open>Stage 6: cross-referencing\<close>

definition cross_reference :: "results \<Rightarrow> results" where
  "cross_reference r =
     r \<lparr> cross_references := Some
          \<lparr> paper_to_patent =
              concat (map (\<lambda>paper.
                  map (\<lambda>patent. (paper_title paper, patent_number patent))
                    (filter (\<lambda>patent.
                        let patent_num = lower (get_str (patent_number patent) '''')
                        in patent_num \<noteq> [] \<and> sublist patent_num (paper_text paper))
                      (patents r)))
                (papers r)),
            patent_to_component =
              concat (map (\<lambda>patent.
                  map (\<lambda>component. (patent_number patent, part_number component))
                    (filter (\<lambda>component.
                        let comp_cat = lower (get_str (category component) '''')
                        in comp_cat \<noteq> [] \<and> sublist comp_cat (patent_text patent))
                      (components r)))
                (patents r)),
            paper_to_component = [] \<rparr> \<rparr>"

section \<open>Stage 7: ranking\<close>

text \<open>
  \<^verbatim>\<open>xs.sort(key=k, reverse=True)\<close> is a stable descending sort: records with equal keys
  keep their order.
\<close>

definition sort_desc :: "('a \<Rightarrow> 'k::linorder) \<Rightarrow> 'a list \<Rightarrow> 'a list" where
  "sort_desc k xs = rev (sort_key k (rev xs))"

text \<open>
  Sorting two or more papers compares their years; a year that is \<^verbatim>\<open>None\<close> then raises
  TypeError. A list of fewer than two papers is not compared at all.
\<close>

definition year_sort_key :: "paper \<Rightarrow> int" where
  "year_sort_key p = (case paper_year p of YearInt y \<Rightarrow> y | YearAbsent \<Rightarrow> 0 | YearNone \<Rightarrow> 0)"

definition rank_results :: "results \<Rightarrow> py_error + results" where
  "rank_results r =
     (if length (papers r) \<ge> 2 \<and> list_ex (\<lambda>p. paper_year p = YearNone) (papers r)
      then Inl TypeError
      else Inr (r \<lparr> papers := take 20 (sort_desc year_sort_key (papers r)),
                    patents := take 20 (sort_desc (\<lambda>p. get_str (patent_filing_date p) '''')
                                          (patents r)),
                    components := take 30 (sort_desc (\<lambda>c. get_int (component_trl c) 0)
                                             (components r)) \<rparr>))"

section \<open>Stage 8: clustering\<close>

fun cluster_append ::
  "string \<Rightarrow> component \<Rightarrow> (string \<times> component list) list \<Rightarrow> (string \<times> component list) list" where
  "cluster_append cat c [] = [(cat, [c])]"
| "cluster_append cat c ((k, cs) # rest) =
     (if k = cat then (k, cs @ [c]) # rest else (k, cs) # cluster_append cat c rest)"

definition cluster_results :: "results \<Rightarrow> results" where
  "cluster_results r =
     r \<lparr> component_clusters :=
           Some (foldl (\<lambda>clusters c. cluster_append (get_str (category c) ''Other'') c clusters)
                   [] (components r)) \<rparr>"

section \<open>Stage 9: synthesis\<close>

record recommendation =
  rec_part_number :: "string option"
  rec_manufacturer :: "string option"
  rec_trl :: "int option"
  rec_lifecycle :: "string option"
  rec_rationale :: "string list"

datatype sc_status = NoData | Status string int nat nat

record synthesis =
  summary :: string
  key_findings :: "string list"
  technology_trends :: "string list"
  component_recommendations :: "recommendation list"
  supply_chain_status :: sc_status
  trl_distribution :: "nat list"

definition create_summary :: "paper list \<Rightarrow> patent list \<Rightarrow> component list \<Rightarrow> string" where
  "create_summary ps pts cs =
     ''Research completed: Found '' @ str_nat (length ps) @ '' academic papers, ''
     @ str_nat (length pts) @ '' patents, and '' @ str_nat (length cs) @ '' components. ''
     @ ''Analysis includes TRL classification, supply chain assessment, and cross-referencing.''"

definition extract_key_findings :: "results \<Rightarrow> string list" where
  "extract_key_findings r =
     (case take 3 (papers r) of
        [] \<Rightarrow> []
      | p # _ \<Rightarrow> [''Recent research highlights: '' @ get_str (paper_title p) ''Unknown''])
     @ (let cs = filter (\<lambda>c. get_int (component_trl c) 0 \<ge> 8) (components r)
        in if cs \<noteq> [] then [str_nat (length cs) @ '' production-ready components identified'']
           else [])"

text \<open>
  \<^verbatim>\<open>p.get("year", 0) >= 2023\<close> raises TypeError on a year that is \<^verbatim>\<open>None\<close>.
\<close>

definition identify_trends :: "paper list \<Rightarrow> patent list \<Rightarrow> py_error + string list" where
  "identify_trends ps pts =
     (if list_ex (\<lambda>p. paper_year p = YearNone) ps then Inl TypeError
      else
        (let recent_papers = filter (\<lambda>p. year_sort_key p \<ge> 2023) ps;
             recent_patents =
               filter (\<lambda>p. take 4 (get_str (patent_filing_date p) '''') \<ge> ''2023'') pts
         in Inr ((if length recent_papers > 5
                  then [''High research activity in recent years''] else [])
                 @ (if length recent_patents > 3
                    then [''Active patent filing indicates commercial interest''] else []))))"

definition recommend_components ::
  "component list \<Rightarrow> supply_chain_record list \<Rightarrow> recommendation list" where
  "recommend_components cs scs =
     map (\<lambda>c.
        \<lparr> rec_part_number = part_number c,
          rec_manufacturer = manufacturer c,
          rec_trl = component_trl c,
          rec_lifecycle = lifecycle c,
          rec_rationale =
            (if get_int (component_trl c) 0 \<ge> 8 then [''Production-proven''] else [])
            @ (if lifecycle c = Some ''Active'' then [''Active lifecycle''] else [])
            @ (case find (\<lambda>sc. sc_part_number sc = part_number c) (rev scs) of
                 None \<Rightarrow> []
               | Some sc_data \<Rightarrow>
                   (let ts = total_stock (sc_availability sc_data)
                    in if ts > 1000
                       then [''Good availability ('' @ str_int ts @ '' units)'']
                       else [])) \<rparr>)
       (take 5 cs)"

definition assess_supply_chain :: "supply_chain_record list \<Rightarrow> sc_status" where
  "assess_supply_chain scs =
     (if scs = [] then NoData
      else
        (let ts = sum_list (map (\<lambda>sc. total_stock (sc_availability sc)) scs);
             active_count = length (filter (\<lambda>sc. sc_lifecycle sc = Some ''Active'') scs)
         in Status (if ts > 5000 then ''healthy'' else ''low_stock'') ts active_count (length scs)))"

text \<open>
  The distribution is the dict with the nine keys \<^verbatim>\<open>"TRL 1"\<close> .. \<^verbatim>\<open>"TRL 9"\<close>, here the list
  of the nine counts. A \<^verbatim>\<open>trl\<close> that is absent or 0 is skipped; any other value outside
  1..9 raises KeyError.
\<close>

fun count_trl :: "int option list \<Rightarrow> nat list \<Rightarrow> py_error + nat list" where
  "count_trl [] d = Inr d"
| "count_trl (t # ts) d =
     (case t of
        None \<Rightarrow> count_trl ts d
      | Some trl \<Rightarrow>
          if trl = 0 then count_trl ts d
          else if 1 \<le> trl \<and> trl \<le> 9
               then count_trl ts (d[nat trl - 1 := d ! (nat trl - 1) + 1])
          else Inl KeyError)"

definition calculate_trl_distribution :: "results \<Rightarrow> py_error + nat list" where
  "calculate_trl_distribution r =
     count_trl (map paper_trl (papers r) @ map patent_trl (patents r)
                @ map component_trl (components r))
       (replicate 9 0)"

definition synthesize_findings :: "results \<Rightarrow> py_error + synthesis" where
  "synthesize_findings r =
     (case identify_trends (papers r) (patents r) of
        Inl e \<Rightarrow> Inl e
      | Inr trends \<Rightarrow>
          (case calculate_trl_distribution r of
             Inl e \<Rightarrow> Inl e
           | Inr distribution \<Rightarrow>
               Inr \<lparr> summary = create_summary (papers r) (patents r) (components r),
                     key_findings = extract_key_findings r,
                     technology_trends = trends,
                     component_recommendations =
                       recommend_components (components r) (supply_chain r),
                     supply_chain_status = assess_supply_chain (supply_chain r),
                     trl_distribution = distribution \<rparr>))"

section \<open>Stage 10: report\<close>

text \<open>
  The report is a string built by appending blocks of text. It is modelled as the list of
  the blocks appended, each with the data it prints. The percentages of the maturity
  block are printed by the code with one decimal; the block carries their exact values.
\<close>

datatype report_block =
    Header string string
  | ExecutiveSummary string
  | KeyFindings "string list"
  | TechnologyTrends "string list"
  | RecommendedComponents "recommendation list"
  | SupplyChainStatus string int nat
  | TRLDistribution "(nat \<times> nat) list"
  | MaturityAssessment rat rat rat
  | Footer
  | ErrorText

definition upper_char :: "char \<Rightarrow> char" where
  "upper_char c =
     (case map_of (zip ''abcdefghijklmnopqrstuvwxyz'' ''ABCDEFGHIJKLMNOPQRSTUVWXYZ'') c of
        Some d \<Rightarrow> d
      | None \<Rightarrow> c)"

definition upper :: "string \<Rightarrow> string" where
  "upper s = map upper_char s"

definition generate_report :: "synthesis \<Rightarrow> query_understanding \<Rightarrow> string \<Rightarrow> report_block list" where
  "generate_report s q now =
     (let trl_dist = trl_distribution s;
          research = sum_list (take 3 trl_dist);
          development = sum_list (take 3 (drop 3 trl_dist));
          production = sum_list (take 3 (drop 6 trl_dist));
          total = research + development + production
      in [Header (get_str (qu_query q) ''Unknown query'') now, ExecutiveSummary (summary s)]
         @ (if key_findings s \<noteq> [] then [KeyFindings (key_findings s)] else [])
         @ (if technology_trends s \<noteq> [] then [TechnologyTrends (technology_trends s)] else [])
         @ (if component_recommendations s \<noteq> []
            then [RecommendedComponents (component_recommendations s)] else [])
         @ (case supply_chain_status s of
              NoData \<Rightarrow> []
            | Status health ts active checked \<Rightarrow> [SupplyChainStatus (upper health) ts active])
         @ (if sum_list trl_dist > 0
            then [TRLDistribution (filter (\<lambda>(trl, n). n > 0) (zip [1 ..< 10] trl_dist))]
            else [])
         @ (if total > 0
            then [MaturityAssessment (of_nat research / of_nat total * 100)
                    (of_nat development / of_nat total * 100)
                    (of_nat production / of_nat total * 100)]
            else [])
         @ [Footer])"

section \<open>The pipeline\<close>

definition count_findings :: "results \<Rightarrow> nat" where
  "count_findings r =
     length (papers r) + length (patents r) + length (components r) + length (supply_chain r)"

record metadata =
  pipeline_stages :: nat
  total_findings :: nat
  processing_timestamp :: string

datatype processed = Processed results | RawResults raw_results

record pipeline_output =
  out_error :: "py_error option"
  out_processed :: processed
  out_synthesis :: "synthesis option"
  out_report :: "report_block list"
  out_metadata :: "metadata option"

definition stages_1_to_5 ::
  "(string \<Rightarrow> string) \<Rightarrow> raw_results \<Rightarrow> query_understanding \<Rightarrow> py_error + results" where
  "stages_1_to_5 md5_hexdigest raw q =
     (case deduplicate md5_hexdigest raw of
        Inl e \<Rightarrow> Inl e
      | Inr r1 \<Rightarrow>
          Inr (classify_trl (filter_regional (filter_relevance (filter_quality r1) q) q)))"

definition run_stages ::
  "(string \<Rightarrow> string) \<Rightarrow> string \<Rightarrow> raw_results \<Rightarrow> query_understanding \<Rightarrow> py_error + pipeline_output" where
  "run_stages md5_hexdigest now raw q =
     (case stages_1_to_5 md5_hexdigest raw q of
        Inl e \<Rightarrow> Inl e
      | Inr r5 \<Rightarrow>
          (case rank_results (cross_reference r5) of
             Inl e \<Rightarrow> Inl e
           | Inr r7 \<Rightarrow>
               (let r8 = cluster_results r7 in
                case synthesize_findings r8 of
                  Inl e \<Rightarrow> Inl e
                | Inr syn \<Rightarrow>
                    Inr \<lparr> out_error = None,
                          out_processed = Processed r8,
                          out_synthesis = Some syn,
                          out_report = generate_report syn q now,
                          out_metadata = Some \<lparr> pipeline_stages = 10,
                                                total_findings = count_findings r8,
                                                processing_timestamp = now \<rparr> \<rparr>)))"

section \<open>The records of the caller after stage 5\<close>

text \<open>
  The lists of stages 1 to 4 are new lists, but their elements are the caller's own
  record dicts, and stage 5 writes the \<^verbatim>\<open>trl\<close> key into them. After stage 5 the caller's
  \<^verbatim>\<open>raw_results\<close> therefore holds, at the place of every record that passed stages 1 to 4,
  the record as stage 5 left it. A record passes stage 1 when it is the first of its list
  with its key; \<open>tag_first\<close> walks a raw list as the deduplication does and tags each
  record with whether it passed (\<open>keep\<close> is the test of stages 2 to 4) and its state after
  stage 5. The records of one list are taken to be distinct dict objects.
\<close>

fun tag_first ::
  "('a \<Rightarrow> string option) \<Rightarrow> ('a \<Rightarrow> bool) \<Rightarrow> ('a \<Rightarrow> 'a) \<Rightarrow> string set \<Rightarrow> 'a list
     \<Rightarrow> (bool \<times> 'a) list" where
  "tag_first k keep f seen [] = []"
| "tag_first k keep f seen (x # xs) =
     (case k x of
        None \<Rightarrow> (False, x) # tag_first k keep f seen xs
      | Some i \<Rightarrow>
          if i \<in> seen then (False, x) # tag_first k keep f seen xs
          else (if keep x then (True, f x) else (False, x))
               # tag_first k keep f (insert i seen) xs)"

definition paper_passes :: "query_understanding \<Rightarrow> paper \<Rightarrow> bool" where
  "paper_passes q =
     (\<lambda>p. (truthy (paper_title p)
            \<and> (case paper_authors p of None \<Rightarrow> False | Some a \<Rightarrow> a \<noteq> [])
            \<and> length (get_str (paper_abstract p) '''') > 50)
           \<and> is_relevant (paper_text p) (lower (get_str (qu_query q) '''')) (qu_entities q))"

definition patent_passes :: "query_understanding \<Rightarrow> patent \<Rightarrow> bool" where
  "patent_passes q =
     (\<lambda>p. (truthy (patent_title p) \<and> truthy (patent_abstract p) \<and> truthy (patent_number p))
           \<and> is_relevant (patent_text p) (lower (get_str (qu_query q) '''')) (qu_entities q))"

definition component_passes :: "string list \<Rightarrow> component \<Rightarrow> bool" where
  "component_passes target_regions =
     (\<lambda>c. (truthy (part_number c) \<and> truthy (manufacturer c))
           \<and> is_regional_match (get_str (manufacturer c) '''') target_regions)"

definition entry_list :: "'a raw_entry \<Rightarrow> 'a list" where
  "entry_list r = (case get_data_list r of Inl e \<Rightarrow> [] | Inr xs \<Rightarrow> xs)"

definition map_entry :: "('a list \<Rightarrow> 'a list) \<Rightarrow> 'a raw_entry \<Rightarrow> 'a raw_entry" where
  "map_entry g r =
     (case r of
        Entry resp \<Rightarrow>
          (case resp_data resp of
             DataDict (Some xs) \<Rightarrow> Entry (resp \<lparr> resp_data := DataDict (Some (g xs)) \<rparr>)
           | DataDict None \<Rightarrow> r
           | DataNone \<Rightarrow> r)
      | EntryNone \<Rightarrow> r
      | EntryAbsent \<Rightarrow> r)"

definition tagged_papers ::
  "(string \<Rightarrow> string) \<Rightarrow> query_understanding \<Rightarrow> paper list \<Rightarrow> (bool \<times> paper) list" where
  "tagged_papers md5_hexdigest q ps =
     tag_first (paper_key md5_hexdigest) (paper_passes q) classify_trl_paper {} ps"

definition tagged_patents :: "query_understanding \<Rightarrow> patent list \<Rightarrow> (bool \<times> patent) list" where
  "tagged_patents q ps = tag_first patent_key (patent_passes q) classify_trl_patent {} ps"

definition tagged_components :: "query_understanding \<Rightarrow> component list \<Rightarrow> (bool \<times> component) list" where
  "tagged_components q cs =
     tag_first component_key (component_passes (target_regions_of q)) classify_trl_component {} cs"

definition raw_after_stage5 ::
  "(string \<Rightarrow> string) \<Rightarrow> raw_results \<Rightarrow> query_understanding \<Rightarrow> raw_results" where
  "raw_after_stage5 md5_hexdigest raw q =
     raw \<lparr> raw_papers := map_entry (\<lambda>ps. map snd (tagged_papers md5_hexdigest q ps))
                            (raw_papers raw),
           raw_patents := map_entry (\<lambda>ps. map snd (tagged_patents q ps)) (raw_patents raw),
           raw_components := map_entry (\<lambda>cs. map snd (tagged_components q cs))
                               (raw_components raw) \<rparr>"

text \<open>
  The caller's \<^verbatim>\<open>raw_results\<close> at the moment a stage raises: as passed in when the fault is
  in stages 1 to 4, after the writes of stage 5 when the fault is later.
\<close>

definition raw_at_fault ::
  "(string \<Rightarrow> string) \<Rightarrow> raw_results \<Rightarrow> query_understanding \<Rightarrow> raw_results" where
  "raw_at_fault md5_hexdigest raw q =
     (case stages_1_to_5 md5_hexdigest raw q of
        Inl e \<Rightarrow> raw
      | Inr r5 \<Rightarrow> raw_after_stage5 md5_hexdigest raw q)"

text \<open>
  \<^verbatim>\<open>ResultProcessor.process\<close>: every exception of a stage is caught and the fallback dict is
  returned; its \<^verbatim>\<open>processed_results\<close> is the caller's \<^verbatim>\<open>raw_results\<close>. \<open>now\<close> is the value of
  \<^verbatim>\<open>datetime.utcnow()\<close>.
\<close>

definition process ::
  "(string \<Rightarrow> string) \<Rightarrow> string \<Rightarrow> raw_results \<Rightarrow> query_understanding \<Rightarrow> pipeline_output" where
  "process md5_hexdigest now raw q =
     (case run_stages md5_hexdigest now raw q of
        Inr out \<Rightarrow> out
      | Inl e \<Rightarrow> \<lparr> out_error = Some e,
                   out_processed = RawResults (raw_at_fault md5_hexdigest raw q),
                   out_synthesis = None,
                   out_report = [ErrorText],
                   out_metadata = None \<rparr>)"

text \<open>
  \<^verbatim>\<open>validate_results\<close>: the three required keys are present in both kinds of output. On the
  fallback, \<^verbatim>\<open>_count_findings\<close> takes \<^verbatim>\<open>len\<close> of what each of the four keys holds: the
  default \<^verbatim>\<open>[]\<close> for an absent key, a provider response (a dict of the six keys of
  \<^verbatim>\<open>_create_response\<close>), or \<^verbatim>\<open>None\<close>, on which \<^verbatim>\<open>len\<close> raises TypeError.
\<close>

definition len_entry :: "'a raw_entry \<Rightarrow> py_error + nat" where
  "len_entry r =
     (case r of EntryAbsent \<Rightarrow> Inr 0 | EntryNone \<Rightarrow> Inl TypeError | Entry resp \<Rightarrow> Inr 6)"

definition count_findings_raw :: "raw_results \<Rightarrow> py_error + nat" where
  "count_findings_raw raw =
     (case len_entry (raw_papers raw) of Inl e \<Rightarrow> Inl e | Inr a \<Rightarrow>
      case len_entry (raw_patents raw) of Inl e \<Rightarrow> Inl e | Inr b \<Rightarrow>
      case len_entry (raw_components raw) of Inl e \<Rightarrow> Inl e | Inr c \<Rightarrow>
      case len_entry (raw_supply_chain raw) of Inl e \<Rightarrow> Inl e | Inr d \<Rightarrow>
        Inr (a + b + c + d))"

definition validate_results :: "pipeline_output \<Rightarrow> py_error + bool" where
  "validate_results out =
     (case out_processed out of
        Processed r \<Rightarrow> Inr (count_findings r > 0)
      | RawResults raw \<Rightarrow>
          (case count_findings_raw raw of Inl e \<Rightarrow> Inl e | Inr n \<Rightarrow> Inr (n > 0)))"

text \<open>
  \<^verbatim>\<open>process\<close> above takes a query understanding of the expected shape. The code accepts any
  dict: when \<^verbatim>\<open>parameters\<close> is not a dict, or \<^verbatim>\<open>parameters.query\<close> has no \<^verbatim>\<open>lower\<close> method, the
  first line of stage 3 raises AttributeError, after stages 1 and 2 and before any record
  is written to. \<open>process_any\<close> is \<^verbatim>\<open>ResultProcessor.process\<close> on both kinds of query
  understanding.
\<close>

datatype query_input = WellFormed query_understanding | MalformedParameters

definition run_any ::
  "(string \<Rightarrow> string) \<Rightarrow> string \<Rightarrow> raw_results \<Rightarrow> query_input \<Rightarrow> py_error + pipeline_output" where
  "run_any md5_hexdigest now raw qi =
     (case qi of
        WellFormed q \<Rightarrow> run_stages md5_hexdigest now raw q
      | MalformedParameters \<Rightarrow>
          (case deduplicate md5_hexdigest raw of
             Inl e \<Rightarrow> Inl e
           | Inr r1 \<Rightarrow> Inl AttributeError))"

definition faulted_before_stage5 :: "(string \<Rightarrow> string) \<Rightarrow> raw_results \<Rightarrow> query_input \<Rightarrow> bool" where
  "faulted_before_stage5 md5_hexdigest raw qi =
     (case qi of
        WellFormed q \<Rightarrow> isl (stages_1_to_5 md5_hexdigest raw q)
      | MalformedParameters \<Rightarrow> True)"

definition raw_at_fault_any ::
  "(string \<Rightarrow> string) \<Rightarrow> raw_results \<Rightarrow> query_input \<Rightarrow> raw_results" where
  "raw_at_fault_any md5_hexdigest raw qi =
     (case qi of
        WellFormed q \<Rightarrow> raw_at_fault md5_hexdigest raw q
      | MalformedParameters \<Rightarrow> raw)"

definition process_any ::
  "(string \<Rightarrow> string) \<Rightarrow> string \<Rightarrow> raw_results \<Rightarrow> query_input \<Rightarrow> pipeline_output" where
  "process_any md5_hexdigest now raw qi =
     (case run_any md5_hexdigest now raw qi of
        Inr out \<Rightarrow> out
      | Inl e \<Rightarrow> \<lparr> out_error = Some e,
                   out_processed = RawResults (raw_at_fault_any md5_hexdigest raw qi),
                   out_synthesis = None,
                   out_report = [ErrorText],
                   out_metadata = None \<rparr>)"
text \<open>The heading each block of the report is printed under.\<close>

fun block_heading :: "report_block \<Rightarrow> string" where
  "block_heading (Header query now) = ''# EE Research Report''"
| "block_heading (ExecutiveSummary s) = ''## Executive Summary''"
| "block_heading (KeyFindings fs) = ''## Key Findings''"
| "block_heading (TechnologyTrends ts) = ''## Technology Trends''"
| "block_heading (RecommendedComponents rs) = ''## Recommended Components''"
| "block_heading (SupplyChainStatus h ts a) = ''## Supply Chain Status''"
| "block_heading (TRLDistribution rows) = ''## Technology Readiness Distribution''"
| "block_heading (MaturityAssessment r d p) = ''## Maturity Assessment''"
| "block_heading Footer = ''---''"
| "block_heading ErrorText = ''Error processing results''"

section \<open>ReportGenerator: the component score\<close>

text \<open>
  \<^verbatim>\<open>ReportGenerator._calculate_component_score\<close> of \<^verbatim>\<open>agents/aggregators/report_generator.py\<close>,
  as a function of the four values it reads from a component: \<^verbatim>\<open>trl\<close>, \<^verbatim>\<open>lifecycle\<close>, the
  distributor dict \<^verbatim>\<open>supply_chain\<close> and \<^verbatim>\<open>specs.efficiency\<close>. The score is a Python float,
  modelled by an exact fraction. \<^verbatim>\<open>ReportGenerator._recommend_components\<close> sorts by this
  score; \<^verbatim>\<open>ResultProcessor._recommend_components\<close> computes no score.
\<close>

definition calculate_component_score ::
  "int option \<Rightarrow> string option \<Rightarrow> (string \<times> distributor) list option \<Rightarrow> rat option \<Rightarrow> rat" where
  "calculate_component_score trl lc sc_data efficiency =
     (if get_int trl 0 \<ge> 8 then 30 else if get_int trl 0 \<ge> 6 then 20 else 10)
     + (if get_str lc '''' = ''Active'' then 25 else if get_str lc '''' = ''NRND'' then 5 else 0)
     + (if total_stock sc_data > 1000 then 20 else if total_stock sc_data > 100 then 10 else 0)
     + (case efficiency of
          None \<Rightarrow> 0
        | Some e \<Rightarrow> if e \<noteq> 0 then e / 100 * 25 else 0)"
section \<open>Concrete inputs\<close>

definition paper0 :: paper where
  "paper0 = \<lparr> paper_title = None, paper_abstract = None, paper_doi = None,
              paper_authors = None, paper_year = YearAbsent, paper_trl = None \<rparr>"

definition patent0 :: patent where
  "patent0 = \<lparr> patent_number = None, patent_title = None, patent_abstract = None,
               patent_filing_date = None, patent_status = None, patent_trl = None \<rparr>"

definition component0 :: component where
  "component0 = \<lparr> part_number = None, manufacturer = None, category = None, lifecycle = None,
                  availability = None, datasheet_url = None, specifications = None,
                  applications = None, component_trl = None \<rparr>"

definition sc0 :: supply_chain_record where
  "sc0 = \<lparr> sc_part_number = None, sc_lifecycle = None, sc_availability = None \<rparr>"

definition raw0 :: raw_results where
  "raw0 = \<lparr> raw_papers = EntryAbsent, raw_patents = EntryAbsent, raw_components = EntryAbsent,
            raw_supply_chain = EntryAbsent \<rparr>"

definition ok_response :: "'a list \<Rightarrow> 'a provider_response" where
  "ok_response xs = \<lparr> resp_provider = ''Provider'', resp_success = True,
                      resp_data = DataDict (Some xs), resp_error = None,
                      resp_metadata = [], resp_timestamp = ''2026-01-01T00:00:00'' \<rparr>"

definition failed_response :: "'a provider_response" where
  "failed_response = \<lparr> resp_provider = ''Provider'', resp_success = False,
                       resp_data = DataNone, resp_error = Some ''Request failed'',
                       resp_metadata = [], resp_timestamp = ''2026-01-01T00:00:00'' \<rparr>"

definition stub_hexdigest :: "string \<Rightarrow> string" where
  "stub_hexdigest s = CHR ''#'' # s"

definition paper_x1 :: paper where
  "paper_x1 = paper0 \<lparr> paper_title := Some ''GaN drivers'', paper_doi := Some ''10.1/x'',
                        paper_abstract := Some ''first'' \<rparr>"

definition paper_x2 :: paper where
  "paper_x2 = paper0 \<lparr> paper_title := Some ''GaN drivers'', paper_doi := Some ''10.1/x'',
                        paper_abstract := Some ''second'' \<rparr>"

definition paper_t1 :: paper where
  "paper_t1 = paper0 \<lparr> paper_title := Some ''SiC Inverters'' \<rparr>"

definition paper_t2 :: paper where
  "paper_t2 = paper0 \<lparr> paper_title := Some ''sic inverters'', paper_abstract := Some ''later'' \<rparr>"

definition patent_e1 :: patent where
  "patent_e1 = patent0 \<lparr> patent_number := Some ''EP1'', patent_title := Some ''Gate driver'' \<rparr>"

definition patent_e2 :: patent where
  "patent_e2 = patent0 \<lparr> patent_number := Some ''EP1'', patent_title := Some ''Other'' \<rparr>"

definition patent_nonum :: patent where
  "patent_nonum = patent0 \<lparr> patent_title := Some ''Unnumbered'' \<rparr>"

definition component_a1 :: component where
  "component_a1 = component0 \<lparr> part_number := Some ''TPS54620'', manufacturer := Some ''TI'' \<rparr>"

definition component_a2 :: component where
  "component_a2 = component0 \<lparr> part_number := Some ''TPS54620'', manufacturer := Some ''Other'' \<rparr>"

definition component_nonum :: component where
  "component_nonum = component0 \<lparr> manufacturer := Some ''Infineon'' \<rparr>"

definition sc_a :: supply_chain_record where
  "sc_a = sc0 \<lparr> sc_part_number := Some ''TPS54620'' \<rparr>"

definition raw_dup :: raw_results where
  "raw_dup = \<lparr> raw_papers = Entry (ok_response [paper_x1, paper_x2, paper_t1, paper_t2]),
               raw_patents = Entry (ok_response [patent_e1, patent_nonum, patent_e2]),
               raw_components = Entry (ok_response [component_nonum, component_a1, component_a2]),
               raw_supply_chain = Entry (ok_response [sc_a, sc_a]) \<rparr>"

definition out_dup :: results where
  "out_dup = \<lparr> papers = [paper_x1, paper_t1], patents = [patent_e1],
               components = [component_a1], supply_chain = [sc_a, sc_a],
               cross_references = None, component_clusters = None \<rparr>"

definition stocked :: "int \<Rightarrow> distributor" where
  "stocked n = \<lparr> dist_stock = Some n, dist_region = None \<rparr>"

definition component_b :: component where
  "component_b = component0 \<lparr> part_number := Some ''TPS54620'', manufacturer := Some ''TI'',
       lifecycle := Some ''Active'',
       availability := Some [(''digikey'', stocked 700), (''mouser'', stocked 500), (''lcsc'', stocked 300)] \<rparr>"

definition component_low :: component where
  "component_low = component0 \<lparr> part_number := Some ''LM2596'', manufacturer := Some ''TI'',
       lifecycle := Some ''Active'', availability := Some [(''digikey'', stocked 50)] \<rparr>"

definition paper_poc :: paper where
  "paper_poc = paper0 \<lparr> paper_title := Some ''Novel GaN Power Conversion'',
       paper_abstract := Some ''A proof of concept for a converter'' \<rparr>"

definition paper_deployed :: paper where
  "paper_deployed = paper0 \<lparr> paper_title := Some ''Field report'',
       paper_abstract := Some ''Deployed in commercial operation'' \<rparr>"

definition query0 :: query_understanding where
  "query0 = \<lparr> qu_query = None, qu_regions = None, qu_entities = [] \<rparr>"

definition now0 :: string where
  "now0 = ''2026-01-01 00:00 UTC''"

definition raw_failed_papers :: raw_results where
  "raw_failed_papers = raw0 \<lparr> raw_papers := Entry failed_response \<rparr>"

definition distributor_eu :: distributor where
  "distributor_eu = \<lparr> dist_stock = Some 1000, dist_region = Some ''EU'' \<rparr>"

definition distributor_us :: distributor where
  "distributor_us = \<lparr> dist_stock = Some 5000, dist_region = Some ''US'' \<rparr>"

definition sc_eu :: supply_chain_record where
  "sc_eu = sc0 \<lparr> sc_part_number := Some ''TPS54620'',
                 sc_availability := Some [(''mouser'', distributor_us), (''digikey'', distributor_eu)] \<rparr>"

definition sc_us :: supply_chain_record where
  "sc_us = sc0 \<lparr> sc_part_number := Some ''LM2596'',
                 sc_availability := Some [(''mouser'', distributor_us)] \<rparr>"

definition results_regional :: results where
  "results_regional = \<lparr> papers = [], patents = [], components = [component_a1, component_nonum],
       supply_chain = [sc_us, sc_eu], cross_references = None, component_clusters = None \<rparr>"

definition long_abstract :: string where
  "long_abstract = ''This work builds on patent EP1234567 and reports measurements of a buck converter.''"

definition plain_abstract :: string where
  "plain_abstract = ''Measurements of a buck converter under light load and under heavy load.''"

definition paper_citing :: paper where
  "paper_citing = \<lparr> paper_title = Some ''Old citing paper'', paper_abstract = Some long_abstract,
       paper_doi = Some ''10.1/old'', paper_authors = Some [''A. Author''],
       paper_year = YearInt 1999, paper_trl = None \<rparr>"

definition numbered_paper :: "nat \<Rightarrow> paper" where
  "numbered_paper i = \<lparr> paper_title = Some (''Paper '' @ str_nat i),
       paper_abstract = Some plain_abstract, paper_doi = Some (''10.1/'' @ str_nat i),
       paper_authors = Some [''A. Author''], paper_year = YearInt (2000 + int i),
       paper_trl = None \<rparr>"

definition patent_cited :: patent where
  "patent_cited = \<lparr> patent_number = Some ''EP1234567'', patent_title = Some ''Buck converter control'',
       patent_abstract = Some ''A control method for a buck converter.'',
       patent_filing_date = Some ''2020-05-01'', patent_status = Some ''Granted'',
       patent_trl = None \<rparr>"

definition component_buck :: component where
  "component_buck = component0 \<lparr> part_number := Some ''TPS54620'', manufacturer := Some ''TI'',
       category := Some ''Buck Converter'', lifecycle := Some ''Active'' \<rparr>"

definition raw_xref :: raw_results where
  "raw_xref = \<lparr> raw_papers = Entry (ok_response [paper_citing]),
       raw_patents = Entry (ok_response [patent_cited]),
       raw_components = Entry (ok_response [component_buck]),
       raw_supply_chain = EntryAbsent \<rparr>"

definition raw_21_papers :: raw_results where
  "raw_21_papers = \<lparr> raw_papers = Entry (ok_response (paper_citing # map numbered_paper [1 ..< 21])),
       raw_patents = Entry (ok_response [patent_cited]),
       raw_components = EntryAbsent,
       raw_supply_chain = EntryAbsent \<rparr>"

definition component_obsolete :: component where
  "component_obsolete = component0 \<lparr> part_number := Some ''OLD9'', manufacturer := Some ''TI'',
       lifecycle := Some ''Obsolete'', component_trl := Some 9 \<rparr>"

definition component_active8 :: component where
  "component_active8 = component0 \<lparr> part_number := Some ''NEW8'', manufacturer := Some ''TI'',
       lifecycle := Some ''Active'', component_trl := Some 8 \<rparr>"

definition raw_two_components :: raw_results where
  "raw_two_components = raw0 \<lparr> raw_components := Entry (ok_response [component_active8, component_obsolete]) \<rparr>"

definition rec_obsolete :: recommendation where
  "rec_obsolete = \<lparr> rec_part_number = Some ''OLD9'', rec_manufacturer = Some ''TI'',
       rec_trl = Some 9, rec_lifecycle = Some ''Obsolete'', rec_rationale = [''Production-proven''] \<rparr>"

definition rec_active8 :: recommendation where
  "rec_active8 = \<lparr> rec_part_number = Some ''NEW8'', rec_manufacturer = Some ''TI'',
       rec_trl = Some 8, rec_lifecycle = Some ''Active'',
       rec_rationale = [''Production-proven'', ''Active lifecycle''] \<rparr>"

definition returned_recommendations :: "pipeline_output \<Rightarrow> recommendation list" where
  "returned_recommendations out =
     (case out_synthesis out of None \<Rightarrow> [] | Some s \<Rightarrow> component_recommendations s)"

definition returned_papers :: "pipeline_output \<Rightarrow> paper list" where
  "returned_papers out = (case out_processed out of Processed r \<Rightarrow> papers r | RawResults raw \<Rightarrow> [])"

definition returned_paper_to_patent :: "pipeline_output \<Rightarrow> (string option \<times> string option) list" where
  "returned_paper_to_patent out =
     (case out_processed out of
        Processed r \<Rightarrow> (case cross_references r of None \<Rightarrow> [] | Some x \<Rightarrow> paper_to_patent x)
      | RawResults raw \<Rightarrow> [])"

definition paper_unparsed_year :: paper where
  "paper_unparsed_year = paper_citing \<lparr> paper_year := YearNone \<rparr>"

definition raw_unparsed_year :: raw_results where
  "raw_unparsed_year = raw0 \<lparr> raw_papers := Entry (ok_response [paper_unparsed_year]) \<rparr>"

definition fallback :: "py_error \<Rightarrow> raw_results \<Rightarrow> pipeline_output" where
  "fallback e raw = \<lparr> out_error = Some e, out_processed = RawResults raw, out_synthesis = None,
                      out_report = [ErrorText], out_metadata = None \<rparr>"

definition raw_none_entry :: raw_results where
  "raw_none_entry = raw0 \<lparr> raw_papers := EntryNone \<rparr>"

definition raw_unparsed_year_after :: raw_results where
  "raw_unparsed_year_after =
     raw0 \<lparr> raw_papers := Entry (ok_response [paper_unparsed_year \<lparr> paper_trl := Some 2 \<rparr>]) \<rparr>"

definition sc_a_later :: supply_chain_record where
  "sc_a_later = sc0 \<lparr> sc_part_number := Some ''TPS54620'', sc_lifecycle := Some ''Obsolete'' \<rparr>"

definition raw_sc_twice :: raw_results where
  "raw_sc_twice = raw0 \<lparr> raw_supply_chain := Entry (ok_response [sc_a, sc_a_later]) \<rparr>"

definition out_sc_twice :: results where
  "out_sc_twice = \<lparr> papers = [], patents = [], components = [], supply_chain = [sc_a, sc_a_later],
       cross_references = None, component_clusters = None \<rparr>"

section \<open>Properties of stage 1\<close>

lemma first_by_key:
  "x \<in> set (first_by k seen xs) \<Longrightarrow> \<exists>i. k x = Some i \<and> i \<notin> seen"
  by (induction xs arbitrary: seen) (auto split: option.splits if_splits)

lemma first_by_mem: "x \<in> set (first_by k seen xs) \<Longrightarrow> x \<in> set xs"
  by (induction xs arbitrary: seen) (auto split: option.splits if_splits)

lemma first_by_distinct: "distinct (map k (first_by k seen xs))"
proof (induction xs arbitrary: seen)
  case Nil
  show ?case by simp
next
  case (Cons x xs)
  show ?case
  proof (cases "k x")
    case None
    then show ?thesis using Cons.IH by simp
  next
    case (Some i)
    show ?thesis
    proof (cases "i \<in> seen")
      case True
      then show ?thesis using Some Cons.IH by simp
    next
      case False
      have "Some i \<notin> k ` set (first_by k (insert i seen) xs)"
        using first_by_key [of _ k "insert i seen" xs] by force
      then show ?thesis using Some False Cons.IH by simp
    qed
  qed
qed

lemma first_by_idem: "first_by k seen (first_by k seen xs) = first_by k seen xs"
  by (induction xs arbitrary: seen) (auto split: option.splits)

lemma first_by_subseq: "subseq (first_by k seen xs) xs"
  by (induction xs arbitrary: seen) (auto split: option.splits)

lemma first_by_find:
  "x \<in> set (first_by k seen xs) \<Longrightarrow> find (\<lambda>y. k y = k x) xs = Some x"
proof (induction xs arbitrary: seen)
  case Nil
  then show ?case by simp
next
  case (Cons y ys)
  obtain i where i: "k x = Some i" "i \<notin> seen"
    using first_by_key [OF Cons.prems] by blast
  show ?case
  proof (cases "k y")
    case None
    then show ?thesis using Cons i by simp
  next
    case (Some j)
    show ?thesis
    proof (cases "j \<in> seen")
      case True
      then have "j \<noteq> i" using i by blast
      then show ?thesis using Cons Some True i by simp
    next
      case False
      show ?thesis
      proof (cases "x = y")
        case True
        then show ?thesis by simp
      next
        case False
        then have mem: "x \<in> set (first_by k (insert j seen) ys)"
          using Cons.prems Some \<open>j \<notin> seen\<close> by simp
        then have "j \<noteq> i" using first_by_key [OF mem] i by auto
        then show ?thesis using Cons.IH [OF mem] Some i by simp
      qed
    qed
  qed
qed


lemma deduplicate_papers_loop_first_by:
  "deduplicate_papers_loop h seen ps = first_by (paper_key h) seen ps"
  by (induction ps arbitrary: seen) (simp_all add: paper_key_def Let_def)

lemma deduplicate_patents_loop_first_by:
  "deduplicate_patents_loop seen ps = first_by patent_key seen ps"
  by (induction ps arbitrary: seen)
     (auto simp: patent_key_def truthy_def split: option.splits)

lemma deduplicate_components_loop_first_by:
  "deduplicate_components_loop seen cs = first_by component_key seen cs"
  by (induction cs arbitrary: seen)
     (auto simp: component_key_def truthy_def split: option.splits)

lemma deduplicate_papers_first_by:
  "deduplicate_papers h ps = first_by (paper_key h) {} ps"
  by (simp add: deduplicate_papers_def deduplicate_papers_loop_first_by)

lemma deduplicate_patents_first_by: "deduplicate_patents ps = first_by patent_key {} ps"
  by (simp add: deduplicate_patents_def deduplicate_patents_loop_first_by)

lemma deduplicate_components_first_by:
  "deduplicate_components cs = first_by component_key {} cs"
  by (simp add: deduplicate_components_def deduplicate_components_loop_first_by)

lemma distinct_map_Some: "distinct (map (\<lambda>x. Some (f x)) xs) \<Longrightarrow> distinct (map f xs)"
  by (simp add: distinct_map inj_on_def)

lemma first_by_distinct_on:
  assumes "\<And>x. x \<in> set (first_by k seen xs) \<Longrightarrow> k x = g x"
  shows "distinct (map g (first_by k seen xs))"
proof -
  have eq: "map g (first_by k seen xs) = map k (first_by k seen xs)"
    using assms by (simp add: map_eq_conv)
  show ?thesis unfolding eq by (rule first_by_distinct)
qed

lemma patent_key_kept:
  "p \<in> set (first_by patent_key seen ps) \<Longrightarrow> patent_key p = patent_number p \<and> truthy (patent_number p)"
  using first_by_key [of p patent_key seen ps]
  by (auto simp: patent_key_def split: if_splits)

lemma component_key_kept:
  "c \<in> set (first_by component_key seen cs) \<Longrightarrow> component_key c = part_number c \<and> truthy (part_number c)"
  using first_by_key [of c component_key seen cs]
  by (auto simp: component_key_def split: if_splits)

lemma deduplicate_papers_distinct:
  "distinct (map (paper_identifier h) (deduplicate_papers h ps))"
proof -
  have "distinct (map (paper_key h) (first_by (paper_key h) {} ps))"
    by (rule first_by_distinct)
  then show ?thesis
    unfolding deduplicate_papers_first_by paper_key_def by (rule distinct_map_Some)
qed

lemma deduplicate_patents_distinct:
  "distinct (map patent_number (deduplicate_patents ps))"
  unfolding deduplicate_patents_first_by
  by (rule first_by_distinct_on) (simp add: patent_key_kept)

lemma deduplicate_components_distinct:
  "distinct (map part_number (deduplicate_components cs))"
  unfolding deduplicate_components_first_by
  by (rule first_by_distinct_on) (simp add: component_key_kept)

lemma deduplicate_raw_dup: "deduplicate stub_hexdigest raw_dup = Inr out_dup"
  by (simp add: deduplicate_def raw_dup_def out_dup_def get_data_list_def ok_response_def
      deduplicate_papers_def deduplicate_patents_def deduplicate_components_def
      paper_identifier_def stub_hexdigest_def get_str_def lower_def lower_char_def
      paper_x1_def paper_x2_def paper_t1_def paper_t2_def paper0_def
      patent_e1_def patent_e2_def patent_nonum_def patent0_def
      component_a1_def component_a2_def component_nonum_def component0_def)

text \<open>
  Claim C5 at a concrete input of stage 1: the supply-chain list holds the same part
  number twice. Both records survive stage 1, so the identity keys of the supply-chain
  records are not unique after the Deduplicator, although the stage is documented to
  remove duplicates across all result types and treats this list as already unique.
\<close>

theorem deduplicate_supply_chain_not_unique:
  "deduplicate stub_hexdigest raw_dup = Inr out_dup
   \<and> \<not> distinct (map sc_part_number (supply_chain out_dup))"
  using deduplicate_raw_dup by (simp add: out_dup_def)

text \<open>
  The three lists that stage 1 does deduplicate: no two surviving papers share an
  identifier (DOI, or the digest of the lower-cased title when the DOI is absent or
  empty), no two surviving patents share a patent number and no two surviving components
  share a part number. The fourth list, the supply-chain records, is handed on as it was
  received.
\<close>

theorem deduplicate_identity_keys_unique:
  assumes "deduplicate h raw = Inr out"
  shows "distinct (map (paper_identifier h) (papers out))
       \<and> distinct (map patent_number (patents out))
       \<and> distinct (map part_number (components out))
       \<and> get_data_list (raw_supply_chain raw) = Inr (supply_chain out)"
proof -
  obtain ps pts cs scs where
    "get_data_list (raw_papers raw) = Inr ps" "get_data_list (raw_patents raw) = Inr pts"
    "get_data_list (raw_components raw) = Inr cs" "get_data_list (raw_supply_chain raw) = Inr scs"
    and out: "out = \<lparr> papers = deduplicate_papers h ps, patents = deduplicate_patents pts,
                      components = deduplicate_components cs, supply_chain = scs,
                      cross_references = None, component_clusters = None \<rparr>"
    using assms by (auto simp: deduplicate_def split: sum.splits)
  then show ?thesis
    by (simp add: deduplicate_papers_distinct deduplicate_patents_distinct
        deduplicate_components_distinct)
qed

theorem deduplicate_identity_keys_unique_witness:
  "deduplicate stub_hexdigest raw_dup = Inr out_dup
   \<and> distinct (map (paper_identifier stub_hexdigest) (papers out_dup))
   \<and> distinct (map patent_number (patents out_dup))
   \<and> distinct (map part_number (components out_dup))
   \<and> get_data_list (raw_supply_chain raw_dup) = Inr (supply_chain out_dup)"
  using deduplicate_identity_keys_unique [OF deduplicate_raw_dup] deduplicate_raw_dup
  by simp

lemma patent_key_eq:
  assumes "truthy (patent_number p)"
  shows "(patent_key q = patent_key p) = (patent_number q = patent_number p)"
  using assms by (auto simp: patent_key_def truthy_def split: option.splits)

lemma component_key_eq:
  assumes "truthy (part_number c)"
  shows "(component_key d = component_key c) = (part_number d = part_number c)"
  using assms by (auto simp: component_key_def truthy_def split: option.splits)

lemma deduplicate_patents_find:
  assumes "p \<in> set (deduplicate_patents pts)"
  shows "find (\<lambda>q. patent_number q = patent_number p) pts = Some p"
proof -
  have mem: "p \<in> set (first_by patent_key {} pts)"
    using assms by (simp add: deduplicate_patents_first_by)
  have "truthy (patent_number p)" using patent_key_kept [OF mem] by simp
  then have "(\<lambda>q. patent_key q = patent_key p) = (\<lambda>q. patent_number q = patent_number p)"
    by (simp add: patent_key_eq)
  then show ?thesis using first_by_find [OF mem] by simp
qed

lemma deduplicate_components_find:
  assumes "c \<in> set (deduplicate_components cs)"
  shows "find (\<lambda>d. part_number d = part_number c) cs = Some c"
proof -
  have mem: "c \<in> set (first_by component_key {} cs)"
    using assms by (simp add: deduplicate_components_first_by)
  have "truthy (part_number c)" using component_key_kept [OF mem] by simp
  then have "(\<lambda>d. component_key d = component_key c) = (\<lambda>d. part_number d = part_number c)"
    by (simp add: component_key_eq)
  then show ?thesis using first_by_find [OF mem] by simp
qed

lemma deduplicate_papers_find:
  assumes "p \<in> set (deduplicate_papers h ps)"
  shows "find (\<lambda>q. paper_identifier h q = paper_identifier h p) ps = Some p"
proof -
  have mem: "p \<in> set (first_by (paper_key h) {} ps)"
    using assms by (simp add: deduplicate_papers_first_by)
  show ?thesis using first_by_find [OF mem] by (simp add: paper_key_def)
qed

lemma first_by_snoc:
  "first_by k seen (xs @ [x])
     = first_by k seen xs
       @ (case k x of
            None \<Rightarrow> []
          | Some i \<Rightarrow> if i \<in> seen \<or> Some i \<in> k ` set xs then [] else [x])"
  by (induction xs arbitrary: seen) (auto split: option.splits)

lemma patent_key_image:
  assumes "i \<noteq> []"
  shows "Some i \<in> patent_key ` set ps \<longleftrightarrow> Some i \<in> patent_number ` set ps"
proof -
  have "(Some i = patent_key q) = (Some i = patent_number q)" for q
    using assms by (auto simp: patent_key_def truthy_def split: option.splits)
  then show ?thesis by (simp add: image_iff)
qed

lemma component_key_image:
  assumes "i \<noteq> []"
  shows "Some i \<in> component_key ` set cs \<longleftrightarrow> Some i \<in> part_number ` set cs"
proof -
  have "(Some i = component_key q) = (Some i = part_number q)" for q
    using assms by (auto simp: component_key_def truthy_def split: option.splits)
  then show ?thesis by (simp add: image_iff)
qed

text \<open>
  The three deduplicating passes, record by record: a record that arrives after the list
  \<open>xs\<close> is appended to the result for \<open>xs\<close> exactly when it has a key (always, for a
  paper) and no record of \<open>xs\<close> has the same key; otherwise the result for \<open>xs\<close> is
  unchanged. With the empty result for the empty list this fixes the three functions:
  the first record with a key is kept, unchanged and in input order, and every later
  record with that key is dropped.
\<close>

theorem deduplicate_record_by_record:
  "deduplicate_papers h [] = []
   \<and> deduplicate_patents [] = []
   \<and> deduplicate_components [] = []
   \<and> deduplicate_papers h (ps @ [p])
       = deduplicate_papers h ps
         @ (if paper_identifier h p \<in> paper_identifier h ` set ps then [] else [p])
   \<and> deduplicate_patents (pts @ [pt])
       = deduplicate_patents pts
         @ (if truthy (patent_number pt) \<and> patent_number pt \<notin> patent_number ` set pts
            then [pt] else [])
   \<and> deduplicate_components (cs @ [c])
       = deduplicate_components cs
         @ (if truthy (part_number c) \<and> part_number c \<notin> part_number ` set cs
            then [c] else [])"
proof -
  have a: "deduplicate_papers h (ps @ [p])
       = deduplicate_papers h ps
         @ (if paper_identifier h p \<in> paper_identifier h ` set ps then [] else [p])"
    by (auto simp: deduplicate_papers_first_by first_by_snoc paper_key_def image_iff)
  have b: "deduplicate_patents (pts @ [pt])
       = deduplicate_patents pts
         @ (if truthy (patent_number pt) \<and> patent_number pt \<notin> patent_number ` set pts
            then [pt] else [])"
  proof (cases "truthy (patent_number pt)")
    case True
    then obtain i where i: "patent_number pt = Some i" "i \<noteq> []"
      by (auto simp: truthy_def split: option.splits)
    then have "patent_key pt = Some i" by (simp add: patent_key_def truthy_def)
    then show ?thesis
      using True i patent_key_image [OF i(2), of pts]
      by (simp add: deduplicate_patents_first_by first_by_snoc)
  next
    case False
    then have "patent_key pt = None" by (simp add: patent_key_def)
    then show ?thesis using False by (simp add: deduplicate_patents_first_by first_by_snoc)
  qed
  have c: "deduplicate_components (cs @ [c])
       = deduplicate_components cs
         @ (if truthy (part_number c) \<and> part_number c \<notin> part_number ` set cs
            then [c] else [])"
  proof (cases "truthy (part_number c)")
    case True
    then obtain i where i: "part_number c = Some i" "i \<noteq> []"
      by (auto simp: truthy_def split: option.splits)
    then have "component_key c = Some i" by (simp add: component_key_def truthy_def)
    then show ?thesis
      using True i component_key_image [OF i(2), of cs]
      by (simp add: deduplicate_components_first_by first_by_snoc)
  next
    case False
    then have "component_key c = None" by (simp add: component_key_def)
    then show ?thesis using False by (simp add: deduplicate_components_first_by first_by_snoc)
  qed
  from a b c show ?thesis
    by (simp add: deduplicate_papers_def deduplicate_patents_def deduplicate_components_def)
qed

lemma deduplicate_raw_sc_twice: "deduplicate stub_hexdigest raw_sc_twice = Inr out_sc_twice"
  by (simp add: deduplicate_def raw_sc_twice_def out_sc_twice_def raw0_def get_data_list_def
      ok_response_def deduplicate_papers_def deduplicate_patents_def deduplicate_components_def)

text \<open>
  Claim C7 at a concrete input of stage 1: two supply-chain records with the part number
  TPS54620, the second one with another lifecycle. Stage 1 hands both on, in input order:
  the later duplicate is not dropped. On two components with that same part number the
  component pass of the same stage keeps the first and drops the second, as the claim
  says.
\<close>

theorem deduplicate_keeps_later_supply_chain_record:
  "deduplicate stub_hexdigest raw_sc_twice = Inr out_sc_twice
   \<and> supply_chain out_sc_twice = [sc_a, sc_a_later]
   \<and> sc_part_number sc_a_later = sc_part_number sc_a
   \<and> sc_a_later \<noteq> sc_a
   \<and> part_number component_a2 = part_number component_a1
   \<and> deduplicate_components [component_a1, component_a2] = [component_a1]"
  by (simp add: deduplicate_raw_sc_twice out_sc_twice_def sc_a_later_def sc_a_def sc0_def
      component_a1_def component_a2_def component0_def deduplicate_components_def)

text \<open>
  The three deduplicating passes are idempotent, return a subsequence of their input (the
  surviving records are unchanged and keep their input order), and every survivor is the
  first record of the input that carries its identity key.
\<close>

theorem deduplicator_idempotent_first_wins:
  "deduplicate_papers h (deduplicate_papers h ps) = deduplicate_papers h ps
   \<and> deduplicate_patents (deduplicate_patents pts) = deduplicate_patents pts
   \<and> deduplicate_components (deduplicate_components cs) = deduplicate_components cs
   \<and> subseq (deduplicate_papers h ps) ps
   \<and> subseq (deduplicate_patents pts) pts
   \<and> subseq (deduplicate_components cs) cs
   \<and> (\<forall>p \<in> set (deduplicate_papers h ps).
         find (\<lambda>q. paper_identifier h q = paper_identifier h p) ps = Some p)
   \<and> (\<forall>p \<in> set (deduplicate_patents pts).
         find (\<lambda>q. patent_number q = patent_number p) pts = Some p)
   \<and> (\<forall>c \<in> set (deduplicate_components cs).
         find (\<lambda>d. part_number d = part_number c) cs = Some c)"
  by (simp add: deduplicate_papers_first_by deduplicate_patents_first_by
      deduplicate_components_first_by first_by_idem first_by_subseq
      deduplicate_papers_find [unfolded deduplicate_papers_first_by]
      deduplicate_patents_find [unfolded deduplicate_patents_first_by]
      deduplicate_components_find [unfolded deduplicate_components_first_by])

lemma papers_dup_eval:
  "deduplicate_papers stub_hexdigest [paper_x1, paper_x2, paper_t1, paper_t2] = [paper_x1, paper_t1]"
  using deduplicate_raw_dup
  by (simp add: deduplicate_def raw_dup_def out_dup_def get_data_list_def ok_response_def)

lemma patents_dup_eval:
  "deduplicate_patents [patent_e1, patent_nonum, patent_e2] = [patent_e1]"
  using deduplicate_raw_dup
  by (simp add: deduplicate_def raw_dup_def out_dup_def get_data_list_def ok_response_def)

lemma components_dup_eval:
  "deduplicate_components [component_nonum, component_a1, component_a2] = [component_a1]"
  using deduplicate_raw_dup
  by (simp add: deduplicate_def raw_dup_def out_dup_def get_data_list_def ok_response_def)

theorem deduplicator_idempotent_first_wins_witness:
  "paper_x1 \<in> set (deduplicate_papers stub_hexdigest [paper_x1, paper_x2, paper_t1, paper_t2])
   \<and> find (\<lambda>q. paper_identifier stub_hexdigest q = paper_identifier stub_hexdigest paper_x1)
        [paper_x1, paper_x2, paper_t1, paper_t2] = Some paper_x1
   \<and> patent_e1 \<in> set (deduplicate_patents [patent_e1, patent_nonum, patent_e2])
   \<and> find (\<lambda>q. patent_number q = patent_number patent_e1)
        [patent_e1, patent_nonum, patent_e2] = Some patent_e1
   \<and> component_a1 \<in> set (deduplicate_components [component_nonum, component_a1, component_a2])
   \<and> find (\<lambda>d. part_number d = part_number component_a1)
        [component_nonum, component_a1, component_a2] = Some component_a1
   \<and> deduplicate_papers stub_hexdigest [paper_x1, paper_t1] = [paper_x1, paper_t1]"
proof -
  have m1: "paper_x1 \<in> set (deduplicate_papers stub_hexdigest [paper_x1, paper_x2, paper_t1, paper_t2])"
    by (simp add: papers_dup_eval)
  have m2: "patent_e1 \<in> set (deduplicate_patents [patent_e1, patent_nonum, patent_e2])"
    by (simp add: patents_dup_eval)
  have m3: "component_a1 \<in> set (deduplicate_components [component_nonum, component_a1, component_a2])"
    by (simp add: components_dup_eval)
  note inst = deduplicator_idempotent_first_wins [of stub_hexdigest
      "[paper_x1, paper_x2, paper_t1, paper_t2]" "[patent_e1, patent_nonum, patent_e2]"
      "[component_nonum, component_a1, component_a2]"]
  have idem: "deduplicate_papers stub_hexdigest [paper_x1, paper_t1] = [paper_x1, paper_t1]"
    using inst by (simp only: papers_dup_eval)
  from inst m1 m2 m3 idem show ?thesis by blast
qed




section \<open>Properties of the TRL classification\<close>

lemma classify_component_active:
  assumes "lower (get_str (lifecycle c) '''') = ''active''"
  shows "fst (classify_component c) =
           (if total_stock (availability c) > 1000 \<and> distributor_count (availability c) \<ge> 2
            then 9
            else if total_stock (availability c) > 100 then 8 else 7)
         \<and> fst (snd (classify_component c)) \<ge> 8 / 10"
  using assms by (simp add: classify_component_def Let_def split_def)

lemma classify_component_scenario_B:
  "classify_component component_b
     = (9, 9 / 10, ''TRL 9: Mass production: 1500 units across 3 distributors'')"
  by code_simp

text \<open>
  Claim C1 at a concrete input of the pipeline: an Active component with 50 units at one
  distributor and no \<^verbatim>\<open>trl\<close> key. Stage 5 of the pipeline gives it TRL 9 without reading
  the stock; \<^verbatim>\<open>TRLProvider._classify_component\<close> gives the same record TRL 7, as the claim
  says.
\<close>

theorem classify_trl_ignores_stock:
  "lifecycle component_low = Some ''Active''
   \<and> total_stock (availability component_low) = 50
   \<and> distributor_count (availability component_low) = 1
   \<and> component_trl (classify_trl_component component_low) = Some 9
   \<and> fst (classify_component component_low) = 7"
  by code_simp

lemma levels_upto: "[9, 8, 7, 6, 5, 4, 3, 2, 1] = rev [1..9::int]"
  by code_simp

lemma scan_indicators_first:
  assumes "\<forall>l' \<in> set pre. level_matches text l' = []" and "level_matches text l \<noteq> []"
  shows "scan_indicators text (pre @ l # post) = Some (l, level_matches text l)"
  using assms by (induction pre) (simp_all add: Let_def)

lemma scan_indicators_none:
  assumes "\<forall>l \<in> set ls. level_matches text l = []"
  shows "scan_indicators text ls = None"
  using assms by (induction ls) (simp_all add: Let_def)

lemma scan_indicators_levels:
  assumes "1 \<le> l" and "l \<le> 9"
    and "level_matches text l \<noteq> []"
    and "\<forall>l' \<in> {l<..9}. level_matches text l' = []"
  shows "scan_indicators text [9, 8, 7, 6, 5, 4, 3, 2, 1] = Some (l, level_matches text l)"
proof -
  have "[1..9] = [1..l - 1] @ l # [l + 1..9]"
    using assms(1,2) by (rule upto_split3)
  then have split: "[9, 8, 7, 6, 5, 4, 3, 2, 1] = rev [l + 1..9] @ l # rev [1..l - 1]"
    by (simp add: levels_upto)
  have "\<forall>l' \<in> set (rev [l + 1..9]). level_matches text l' = []"
    using assms(4) by auto
  then show ?thesis
    unfolding split using assms(3) by (rule scan_indicators_first)
qed

lemma join_sublist: "r \<in> set rs \<Longrightarrow> sublist r (join sep rs)"
proof (induction sep rs rule: join.induct)
  case (1 sep)
  then show ?case by simp
next
  case (2 sep x)
  then show ?case by simp
next
  case (3 sep x y ys)
  show ?case
  proof (cases "r = x")
    case True
    then show ?thesis by simp
  next
    case False
    then have "sublist r (join sep (y # ys))" using 3 by simp
    then obtain a b where "join sep (y # ys) = a @ r @ b" by (auto simp: sublist_def)
    then have "join sep (x # y # ys) = (x @ sep @ a) @ r @ b" by simp
    then show ?thesis unfolding sublist_def by blast
  qed
qed

lemma sublist_after_prefix: "sublist r s \<Longrightarrow> sublist r (pre @ s)"
proof -
  assume "sublist r s"
  then obtain a b where "s = a @ r @ b" by (auto simp: sublist_def)
  then have "pre @ s = (pre @ a) @ r @ b" by simp
  then show ?thesis unfolding sublist_def by blast
qed

text \<open>
  Claim C3, as stated, at a concrete input: a paper without title and abstract matches
  no indicator at any level; it is classified TRL 2 with confidence 0.5, not the
  0.6 + 0.05 \<times> 0 = 0.6 of the claim.
\<close>

theorem classify_paper_default_confidence:
  "concat (map (level_matches (paper_text paper0)) [9, 8, 7, 6, 5, 4, 3, 2, 1]) = []
   \<and> classify_paper paper0 = (2, 5 / 10, ''TRL 2: Source: academic paper'')
   \<and> fst (snd (classify_paper paper0)) \<noteq> min (6 / 10 + of_nat 0 * (5 / 100)) (8 / 10)"
  by code_simp

text \<open>
  Claim C3, amended: the paper path returns the highest level from 9 down to 1 that has
  a matching indicator, clamped to 6, with the adjustment note in the justification when
  that level is above 6; its confidence is then 0.6 + 0.05 \<times> (number of indicators of
  that level that match), capped at 0.8. When no level has a match it returns TRL 2 with
  confidence 0.5.
\<close>

theorem classify_paper_scan:
  assumes "classify_paper p = (trl, conf, just)"
  shows "((\<forall>l \<in> {1..9}. level_matches (paper_text p) l = []) \<longrightarrow> trl = 2 \<and> conf = 5 / 10)
       \<and> (\<forall>l \<in> {1..9}.
            level_matches (paper_text p) l \<noteq> []
            \<and> (\<forall>l' \<in> {l<..9}. level_matches (paper_text p) l' = [])
            \<longrightarrow> trl = min l 6
                \<and> conf = min (6 / 10 + of_nat (length (level_matches (paper_text p) l)) * (5 / 100))
                             (8 / 10)
                \<and> (l > 6 \<longrightarrow> sublist adjusted_papers_note just))"
proof (intro conjI impI ballI)
  assume none: "\<forall>l \<in> {1..9}. level_matches (paper_text p) l = []"
  have "scan_indicators (paper_text p) [9, 8, 7, 6, 5, 4, 3, 2, 1] = None"
    by (rule scan_indicators_none) (use none in simp)
  then show "trl = 2" "conf = 5 / 10"
    using assms by (simp_all add: classify_paper_def Let_def)
next
  fix l :: int
  assume l: "l \<in> {1..9}"
    and m: "level_matches (paper_text p) l \<noteq> []
            \<and> (\<forall>l' \<in> {l<..9}. level_matches (paper_text p) l' = [])"
  have scan: "scan_indicators (paper_text p) [9, 8, 7, 6, 5, 4, 3, 2, 1]
                = Some (l, level_matches (paper_text p) l)"
    using l m by (intro scan_indicators_levels) simp_all
  show "trl = min l 6"
    using assms scan by (auto simp: classify_paper_def Let_def split: if_splits)
  show "conf = min (6 / 10 + of_nat (length (level_matches (paper_text p) l)) * (5 / 100)) (8 / 10)"
    using assms scan by (auto simp: classify_paper_def Let_def split: if_splits)
  show "sublist adjusted_papers_note just" if "l > 6"
  proof -
    have just: "just = (''TRL '' @ str_int (min l 6) @ '': '')
        @ join ''; '' ([''Indicators: '' @ join '', '' (take 3 (level_matches (paper_text p) l))]
                       @ [adjusted_papers_note] @ [''Source: academic paper''])"
      using assms scan that by (simp add: classify_paper_def Let_def)
    show ?thesis
      unfolding just by (rule sublist_after_prefix, rule join_sublist) simp
  qed
qed

lemma classify_paper_deployed:
  "classify_paper paper_deployed
     = (6, 7 / 10, ''TRL 6: Indicators: deployed, commercial; '' @ adjusted_papers_note
                    @ ''; Source: academic paper'')"
  by code_simp

lemma paper_deployed_matches:
  "level_matches (paper_text paper_deployed) 9 = [''deployed'', ''commercial'']"
  by code_simp

lemma paper0_no_matches: "\<forall>l \<in> {1..9}. level_matches (paper_text paper0) l = []"
proof
  fix l :: int
  assume "l \<in> {1..9}"
  then have "l \<in> set [1, 2, 3, 4, 5, 6, 7, 8, 9]"
    by (simp add: atLeastAtMost_iff) presburger
  moreover have "\<forall>l \<in> set [1, 2, 3, 4, 5, 6, 7, 8, 9 :: int]. level_matches (paper_text paper0) l = []"
    by code_simp
  ultimately show "level_matches (paper_text paper0) l = []" by blast
qed

theorem classify_paper_scan_witness:
  "classify_paper paper_deployed
     = (6, 7 / 10, ''TRL 6: Indicators: deployed, commercial; '' @ adjusted_papers_note
                    @ ''; Source: academic paper'')
   \<and> (9::int) \<in> {1..9}
   \<and> level_matches (paper_text paper_deployed) 9 \<noteq> []
   \<and> (6::int) = min 9 6
   \<and> (7 / 10 :: rat) = min (6 / 10 + of_nat (length (level_matches (paper_text paper_deployed) 9)) * (5 / 100)) (8 / 10)
   \<and> sublist adjusted_papers_note
        (''TRL 6: Indicators: deployed, commercial; '' @ adjusted_papers_note
           @ ''; Source: academic paper'')
   \<and> concat (map (level_matches (paper_text paper0)) [9, 8, 7, 6, 5, 4, 3, 2, 1]) = []
   \<and> classify_paper paper0 = (2, 5 / 10, ''TRL 2: Source: academic paper'')"
proof -
  have a: "(9::int) \<in> {1..9}" by simp
  have b: "level_matches (paper_text paper_deployed) 9 \<noteq> []"
    by (simp add: paper_deployed_matches)
  have c: "\<forall>l' \<in> {9<..9::int}. level_matches (paper_text paper_deployed) l' = []" by simp
  have d: "classify_paper paper0 = (2, 5 / 10, ''TRL 2: Source: academic paper'')"
    by code_simp
  have e: "concat (map (level_matches (paper_text paper0)) [9, 8, 7, 6, 5, 4, 3, 2, 1]) = []"
    by code_simp
  note i1 = classify_paper_scan [OF classify_paper_deployed]
  note i2 = classify_paper_scan [OF d]
  from i1 [THEN conjunct2, THEN bspec, OF a] b c have "(6::int) = min 9 6
     \<and> (7 / 10 :: rat) = min (6 / 10 + of_nat (length (level_matches (paper_text paper_deployed) 9)) * (5 / 100)) (8 / 10)
     \<and> sublist adjusted_papers_note
        (''TRL 6: Indicators: deployed, commercial; '' @ adjusted_papers_note
           @ ''; Source: academic paper'')"
    by blast
  moreover from i2 [THEN conjunct1] paper0_no_matches have "(2::int) = 2 \<and> (5 / 10 :: rat) = 5 / 10"
    by blast
  ultimately show ?thesis using a b d e classify_paper_deployed by blast
qed

section \<open>Properties of the regional filter\<close>

lemma is_regional_match_True: "is_regional_match mfr target_regions"
  by (simp add: is_regional_match_def Let_def)

text \<open>
  Claim C8: \<^verbatim>\<open>_is_regional_match\<close> returns \<^verbatim>\<open>True\<close> for every manufacturer and every list of
  target regions, so stage 4 keeps every component; a supply-chain record is kept exactly
  when one of its distributor entries has a region that is in the target regions.
\<close>

theorem filter_regional_advisory:
  "is_regional_match mfr target_regions
   \<and> components (filter_regional r q) = components r
   \<and> (sc \<in> set (supply_chain (filter_regional r q)) \<longleftrightarrow>
        sc \<in> set (supply_chain r)
        \<and> (\<exists>d \<in> set (availability_values (sc_availability sc)).
              \<exists>region. dist_region d = Some region \<and> region \<in> set (target_regions_of q)))"
proof -
  have "list_ex (\<lambda>d. region_in d ts) ds
        \<longleftrightarrow> (\<exists>d \<in> set ds. \<exists>region. dist_region d = Some region \<and> region \<in> set ts)"
    for ds :: "distributor list" and ts
    by (auto simp: list_ex_iff region_in_def split: option.splits)
  then show ?thesis
    by (simp add: filter_regional_def Let_def is_regional_match_True)
qed

theorem filter_regional_advisory_witness:
  "components (filter_regional results_regional query0) = [component_a1, component_nonum]
   \<and> sc_eu \<in> set (supply_chain (filter_regional results_regional query0))
   \<and> sc_us \<notin> set (supply_chain (filter_regional results_regional query0))
   \<and> distributor_eu \<in> set (availability_values (sc_availability sc_eu))
   \<and> dist_region distributor_eu = Some ''EU''
   \<and> ''EU'' \<in> set (target_regions_of query0)"
proof -
  have a: "sc_eu \<in> set (supply_chain results_regional)" by (simp add: results_regional_def)
  have b: "distributor_eu \<in> set (availability_values (sc_availability sc_eu))"
    by (simp add: availability_values_def sc_eu_def sc0_def)
  have c: "dist_region distributor_eu = Some ''EU''" by (simp add: distributor_eu_def)
  have d: "''EU'' \<in> set (target_regions_of query0)"
    by (simp add: target_regions_of_def query0_def)
  have e: "\<not> (\<exists>d \<in> set (availability_values (sc_availability sc_us)).
              \<exists>region. dist_region d = Some region \<and> region \<in> set (target_regions_of query0))"
    by (simp add: availability_values_def sc_us_def sc0_def distributor_us_def
        target_regions_of_def query0_def)
  have f: "components results_regional = [component_a1, component_nonum]"
    by (simp add: results_regional_def)
  note i1 = filter_regional_advisory [of "''TI''" "[''EU'']" results_regional query0 sc_eu]
  note i2 = filter_regional_advisory [of "''TI''" "[''EU'']" results_regional query0 sc_us]
  from i1 a b c d have "sc_eu \<in> set (supply_chain (filter_regional results_regional query0))"
    by blast
  moreover from i2 e have "sc_us \<notin> set (supply_chain (filter_regional results_regional query0))"
    by blast
  moreover from i1 f have "components (filter_regional results_regional query0)
      = [component_a1, component_nonum]" by simp
  ultimately show ?thesis using b c d by blast
qed

section \<open>Properties of the report\<close>

lemma run_stages_empty:
  assumes "get_data_list (raw_papers raw) = Inr []"
    and "get_data_list (raw_patents raw) = Inr []"
    and "get_data_list (raw_components raw) = Inr []"
    and "get_data_list (raw_supply_chain raw) = Inr []"
  shows "run_stages h now raw q =
     Inr \<lparr> out_error = None,
           out_processed = Processed
             \<lparr> papers = [], patents = [], components = [], supply_chain = [],
               cross_references = Some \<lparr> paper_to_patent = [], patent_to_component = [],
                                        paper_to_component = [] \<rparr>,
               component_clusters = Some [] \<rparr>,
           out_synthesis = Some
             \<lparr> summary = create_summary [] [] [], key_findings = [], technology_trends = [],
               component_recommendations = [], supply_chain_status = NoData,
               trl_distribution = replicate 9 0 \<rparr>,
           out_report = [Header (get_str (qu_query q) ''Unknown query'') now,
                         ExecutiveSummary (create_summary [] [] []), Footer],
           out_metadata = Some \<lparr> pipeline_stages = 10, total_findings = 0,
                                 processing_timestamp = now \<rparr> \<rparr>"
proof -
  have r1: "deduplicate h raw = Inr \<lparr> papers = [], patents = [], components = [],
      supply_chain = [], cross_references = None, component_clusters = None \<rparr>"
    using assms
    by (simp add: deduplicate_def deduplicate_papers_def deduplicate_patents_def
        deduplicate_components_def)
  have r5: "stages_1_to_5 h raw q = Inr \<lparr> papers = [], patents = [], components = [],
      supply_chain = [], cross_references = None, component_clusters = None \<rparr>"
    by (simp add: stages_1_to_5_def r1 filter_quality_def filter_relevance_def
        filter_regional_def classify_trl_def Let_def)
  show ?thesis
    by (simp add: run_stages_def r5 cross_reference_def rank_results_def sort_desc_def
        cluster_results_def synthesize_findings_def identify_trends_def
        calculate_trl_distribution_def create_summary_def extract_key_findings_def
        recommend_components_def assess_supply_chain_def generate_report_def
        count_findings_def Let_def numeral_eq_Suc)
qed

lemma create_summary_empty:
  "create_summary [] [] [] = ''Research completed: Found 0 academic papers, 0 patents, and 0 components. Analysis includes TRL classification, supply chain assessment, and cross-referencing.''"
  by code_simp

lemma get_data_list_raw0:
  "get_data_list (raw_papers raw0) = Inr []" "get_data_list (raw_patents raw0) = Inr []"
  "get_data_list (raw_components raw0) = Inr []" "get_data_list (raw_supply_chain raw0) = Inr []"
  by (simp_all add: get_data_list_def raw0_def)

text \<open>
  Claim C6, as stated, at a concrete input: with no input at all the report is not the
  header alone. The Executive Summary block, which prints the three zero counts, and the
  closing footer are produced as well.
\<close>

theorem empty_report_not_header_only:
  "out_report (process stub_hexdigest now0 raw0 query0)
     = [Header ''Unknown query'' now0,
        ExecutiveSummary ''Research completed: Found 0 academic papers, 0 patents, and 0 components. Analysis includes TRL classification, supply chain assessment, and cross-referencing.'',
        Footer]
   \<and> out_report (process stub_hexdigest now0 raw0 query0) \<noteq> [Header ''Unknown query'' now0]"
  by (simp add: process_def run_stages_empty [OF get_data_list_raw0] create_summary_empty
      query0_def get_str_def)

lemma sum_take_drop:
  "sum_list (take 3 xs) + sum_list (take 3 (drop 3 xs)) + sum_list (take 3 (drop 6 xs))
     = sum_list (take 9 (xs :: nat list))"
proof -
  have a: "take (3 + (3 + 3)) xs = take 3 xs @ take (3 + 3) (drop 3 xs)"
    by (rule take_add)
  have b: "take (3 + 3) (drop 3 xs) = take 3 (drop 3 xs) @ take 3 (drop 3 (drop 3 xs))"
    by (rule take_add)
  have "take 9 xs = take 3 xs @ take 3 (drop 3 xs) @ take 3 (drop 6 xs)"
    using a b by simp
  then show ?thesis by simp
qed

text \<open>
  Claim C6, amended: when all four input lists are empty the synthesis has zero counts in
  its summary, no findings, no trends, no recommendations, no supply-chain data and an
  all-zero TRL distribution, and the report consists of the header, the Executive Summary
  (always printed) and the footer. For every synthesis, each of the six blocks Key
  Findings, Technology Trends, Recommended Components, Supply Chain Status, TRL
  Distribution and Maturity Assessment is printed exactly when its data is non-empty.
\<close>

theorem report_sections_follow_data:
  "(get_data_list (raw_papers raw) = Inr [] \<and> get_data_list (raw_patents raw) = Inr []
      \<and> get_data_list (raw_components raw) = Inr [] \<and> get_data_list (raw_supply_chain raw) = Inr []
    \<longrightarrow> out_error (process h now raw q) = None
        \<and> out_synthesis (process h now raw q) = Some
             \<lparr> summary = ''Research completed: Found 0 academic papers, 0 patents, and 0 components. Analysis includes TRL classification, supply chain assessment, and cross-referencing.'',
               key_findings = [], technology_trends = [], component_recommendations = [],
               supply_chain_status = NoData, trl_distribution = replicate 9 0 \<rparr>
        \<and> map block_heading (out_report (process h now raw q))
            = [''# EE Research Report'', ''## Executive Summary'', ''---''])
   \<and> ''## Executive Summary'' \<in> set (map block_heading (generate_report s q now))
   \<and> (''## Key Findings'' \<in> set (map block_heading (generate_report s q now))
        \<longleftrightarrow> key_findings s \<noteq> [])
   \<and> (''## Technology Trends'' \<in> set (map block_heading (generate_report s q now))
        \<longleftrightarrow> technology_trends s \<noteq> [])
   \<and> (''## Recommended Components'' \<in> set (map block_heading (generate_report s q now))
        \<longleftrightarrow> component_recommendations s \<noteq> [])
   \<and> (''## Supply Chain Status'' \<in> set (map block_heading (generate_report s q now))
        \<longleftrightarrow> supply_chain_status s \<noteq> NoData)
   \<and> (''## Technology Readiness Distribution'' \<in> set (map block_heading (generate_report s q now))
        \<longleftrightarrow> sum_list (trl_distribution s) > 0)
   \<and> (''## Maturity Assessment'' \<in> set (map block_heading (generate_report s q now))
        \<longleftrightarrow> sum_list (take 9 (trl_distribution s)) > 0)"
proof -
  have empty: "get_data_list (raw_papers raw) = Inr [] \<and> get_data_list (raw_patents raw) = Inr []
      \<and> get_data_list (raw_components raw) = Inr [] \<and> get_data_list (raw_supply_chain raw) = Inr []
    \<longrightarrow> out_error (process h now raw q) = None
        \<and> out_synthesis (process h now raw q) = Some
             \<lparr> summary = ''Research completed: Found 0 academic papers, 0 patents, and 0 components. Analysis includes TRL classification, supply chain assessment, and cross-referencing.'',
               key_findings = [], technology_trends = [], component_recommendations = [],
               supply_chain_status = NoData, trl_distribution = replicate 9 0 \<rparr>
        \<and> map block_heading (out_report (process h now raw q))
            = [''# EE Research Report'', ''## Executive Summary'', ''---'']"
    by (simp add: process_def run_stages_empty create_summary_empty)
  have hs: "map block_heading (generate_report s q now) =
      [''# EE Research Report'', ''## Executive Summary'']
      @ (if key_findings s \<noteq> [] then [''## Key Findings''] else [])
      @ (if technology_trends s \<noteq> [] then [''## Technology Trends''] else [])
      @ (if component_recommendations s \<noteq> [] then [''## Recommended Components''] else [])
      @ (if supply_chain_status s \<noteq> NoData then [''## Supply Chain Status''] else [])
      @ (if sum_list (trl_distribution s) > 0 then [''## Technology Readiness Distribution''] else [])
      @ (if sum_list (take 9 (trl_distribution s)) > 0 then [''## Maturity Assessment''] else [])
      @ [''---'']"
    unfolding generate_report_def Let_def sum_take_drop
    by (cases "supply_chain_status s") simp_all
  have general: "''## Executive Summary'' \<in> set (map block_heading (generate_report s q now))
   \<and> (''## Key Findings'' \<in> set (map block_heading (generate_report s q now))
        \<longleftrightarrow> key_findings s \<noteq> [])
   \<and> (''## Technology Trends'' \<in> set (map block_heading (generate_report s q now))
        \<longleftrightarrow> technology_trends s \<noteq> [])
   \<and> (''## Recommended Components'' \<in> set (map block_heading (generate_report s q now))
        \<longleftrightarrow> component_recommendations s \<noteq> [])
   \<and> (''## Supply Chain Status'' \<in> set (map block_heading (generate_report s q now))
        \<longleftrightarrow> supply_chain_status s \<noteq> NoData)
   \<and> (''## Technology Readiness Distribution'' \<in> set (map block_heading (generate_report s q now))
        \<longleftrightarrow> sum_list (trl_distribution s) > 0)
   \<and> (''## Maturity Assessment'' \<in> set (map block_heading (generate_report s q now))
        \<longleftrightarrow> sum_list (take 9 (trl_distribution s)) > 0)"
    unfolding hs by simp
  from empty general show ?thesis by blast
qed

theorem report_sections_follow_data_witness:
  "get_data_list (raw_papers raw0) = Inr [] \<and> get_data_list (raw_patents raw0) = Inr []
   \<and> get_data_list (raw_components raw0) = Inr [] \<and> get_data_list (raw_supply_chain raw0) = Inr []
   \<and> out_error (process stub_hexdigest now0 raw0 query0) = None
   \<and> map block_heading (out_report (process stub_hexdigest now0 raw0 query0))
        = [''# EE Research Report'', ''## Executive Summary'', ''---'']"
  using report_sections_follow_data [of raw0 stub_hexdigest now0 query0] get_data_list_raw0
  by blast

section \<open>Properties of the fault path\<close>

lemma run_stages_failed_papers:
  "run_stages stub_hexdigest now0 raw_failed_papers query0 = Inl AttributeError"
  by (simp add: run_stages_def stages_1_to_5_def deduplicate_def get_data_list_def
      raw_failed_papers_def raw0_def failed_response_def)

lemma stages_1_to_5_failed_papers:
  "stages_1_to_5 stub_hexdigest raw_failed_papers query0 = Inl AttributeError"
  by (simp add: stages_1_to_5_def deduplicate_def get_data_list_def
      raw_failed_papers_def raw0_def failed_response_def)

lemma run_any_unparsed_year:
  "run_any stub_hexdigest now0 raw_unparsed_year (WellFormed query0) = Inl TypeError"
  by code_simp

lemma raw_at_fault_unparsed_year:
  "raw_at_fault_any stub_hexdigest raw_unparsed_year (WellFormed query0) = raw_unparsed_year_after"
  by code_simp

lemma not_faulted_before_stage5_unparsed_year:
  "\<not> faulted_before_stage5 stub_hexdigest raw_unparsed_year (WellFormed query0)"
  by code_simp

lemma tag_first_survivors:
  "map snd (filter fst (tag_first k keep f seen xs)) = map f (filter keep (first_by k seen xs))"
  by (induction xs arbitrary: seen) (auto split: option.splits)

lemma tag_first_shape:
  "list_all2 (\<lambda>x t. t = (False, x) \<or> t = (True, f x)) xs (tag_first k keep f seen xs)"
  by (induction xs arbitrary: seen) (auto split: option.splits)

lemma get_data_list_map_entry:
  assumes "get_data_list r = Inr xs" and "g [] = []"
  shows "get_data_list (map_entry g r) = Inr (g xs)"
  using assms
  by (auto simp: get_data_list_def map_entry_def split: raw_entry.splits py_data.splits option.splits)

lemma entry_list_Inr: "get_data_list r = Inr xs \<Longrightarrow> entry_list r = xs"
  by (simp add: entry_list_def)

lemma stages_1_to_5_Inr:
  assumes "stages_1_to_5 h raw q = Inr r5"
  shows "\<exists>ps pts cs scs.
       get_data_list (raw_papers raw) = Inr ps
     \<and> get_data_list (raw_patents raw) = Inr pts
     \<and> get_data_list (raw_components raw) = Inr cs
     \<and> get_data_list (raw_supply_chain raw) = Inr scs
     \<and> papers r5 = map classify_trl_paper (filter (paper_passes q) (deduplicate_papers h ps))
     \<and> patents r5 = map classify_trl_patent (filter (patent_passes q) (deduplicate_patents pts))
     \<and> components r5 = map classify_trl_component
          (filter (component_passes (target_regions_of q)) (deduplicate_components cs))"
proof -
  from assms obtain r1 where r1: "deduplicate h raw = Inr r1"
    and r5: "r5 = classify_trl (filter_regional (filter_relevance (filter_quality r1) q) q)"
    by (auto simp: stages_1_to_5_def split: sum.splits)
  from r1 obtain ps pts cs scs where
    g: "get_data_list (raw_papers raw) = Inr ps" "get_data_list (raw_patents raw) = Inr pts"
       "get_data_list (raw_components raw) = Inr cs" "get_data_list (raw_supply_chain raw) = Inr scs"
    and l: "papers r1 = deduplicate_papers h ps" "patents r1 = deduplicate_patents pts"
       "components r1 = deduplicate_components cs"
    by (auto simp: deduplicate_def split: sum.splits)
  have "papers r5 = map classify_trl_paper (filter (paper_passes q) (deduplicate_papers h ps))"
    unfolding r5
    by (simp add: classify_trl_def filter_regional_def filter_relevance_def filter_quality_def
        Let_def l paper_passes_def conj_ac)
  moreover have "patents r5 = map classify_trl_patent (filter (patent_passes q) (deduplicate_patents pts))"
    unfolding r5
    by (simp add: classify_trl_def filter_regional_def filter_relevance_def filter_quality_def
        Let_def l patent_passes_def conj_ac)
  moreover have "components r5 = map classify_trl_component
          (filter (component_passes (target_regions_of q)) (deduplicate_components cs))"
    unfolding r5
    by (simp add: classify_trl_def filter_regional_def filter_relevance_def filter_quality_def
        Let_def l component_passes_def conj_ac)
  ultimately show ?thesis using g by blast
qed

text \<open>
  Claim C9, as stated, at a concrete input: the papers provider has failed (its response
  carries \<^verbatim>\<open>data = None\<close>), so stage 1 raises AttributeError. The pipeline does not raise:
  it returns a value holding the raw results under \<^verbatim>\<open>processed_results\<close>, and
  \<^verbatim>\<open>validate_results\<close> returns \<^verbatim>\<open>True\<close> on that value.
\<close>

theorem process_fallback_passes_validation:
  "run_stages stub_hexdigest now0 raw_failed_papers query0 = Inl AttributeError
   \<and> process stub_hexdigest now0 raw_failed_papers query0
       = fallback AttributeError raw_failed_papers
   \<and> out_processed (process stub_hexdigest now0 raw_failed_papers query0)
       = RawResults raw_failed_papers
   \<and> validate_results (process stub_hexdigest now0 raw_failed_papers query0) = Inr True"
proof -
  have p: "process stub_hexdigest now0 raw_failed_papers query0
      = fallback AttributeError raw_failed_papers"
    by (simp add: process_def run_stages_failed_papers fallback_def raw_at_fault_def
        stages_1_to_5_failed_papers)
  have v: "count_findings_raw raw_failed_papers = Inr 6"
    by (simp add: count_findings_raw_def len_entry_def raw_failed_papers_def raw0_def)
  show ?thesis
    by (simp add: p run_stages_failed_papers validate_results_def v fallback_def)
qed

text \<open>
  What \<^verbatim>\<open>validate_results\<close> returns on a fallback depends on the raw results alone: with no
  raw results and a query understanding that makes stage 3 raise it returns \<^verbatim>\<open>False\<close>, and
  with a raw entry that is \<^verbatim>\<open>None\<close> it raises TypeError itself.
\<close>

lemma validate_results_fallback_rejected:
  "process_any stub_hexdigest now0 raw0 MalformedParameters = fallback AttributeError raw0
   \<and> validate_results (process_any stub_hexdigest now0 raw0 MalformedParameters) = Inr False"
  by code_simp

lemma validate_results_fallback_raises:
  "process_any stub_hexdigest now0 raw_none_entry (WellFormed query0)
     = fallback AttributeError raw_none_entry
   \<and> validate_results (process_any stub_hexdigest now0 raw_none_entry (WellFormed query0))
       = Inl TypeError"
  by code_simp

lemma process_any_WellFormed: "process_any h now raw (WellFormed q) = process h now raw q"
  by (simp add: process_any_def process_def run_any_def raw_at_fault_any_def split: sum.splits)

text \<open>
  Claim C9, amended: when a stage raises, no later stage runs and the pipeline returns,
  without raising, a fallback value: a top-level error, the caller's raw results in the
  place of the processed results, no synthesis, the fixed report text
  \<^verbatim>\<open>Error processing results\<close> and no metadata. The raw results are as the caller passed
  them when the fault is in stages 1 to 4. When the fault is later, they hold the records
  in the state stage 5 left them: each raw list has, at the place of every record that
  reached stage 5, that record as stage 5 returned it, and every other record unchanged;
  the supply-chain entry is unchanged.
\<close>

theorem process_fault_fallback:
  assumes "run_any h now raw qi = Inl e"
  shows "process_any h now raw qi = fallback e (raw_at_fault_any h raw qi)
       \<and> out_error (process_any h now raw qi) = Some e
       \<and> out_processed (process_any h now raw qi) = RawResults (raw_at_fault_any h raw qi)
       \<and> out_synthesis (process_any h now raw qi) = None
       \<and> out_report (process_any h now raw qi) = [ErrorText]
       \<and> out_metadata (process_any h now raw qi) = None
       \<and> (faulted_before_stage5 h raw qi \<longrightarrow> raw_at_fault_any h raw qi = raw)
       \<and> (\<forall>q r5. qi = WellFormed q \<and> stages_1_to_5 h raw q = Inr r5 \<longrightarrow>
            get_data_list (raw_papers (raw_at_fault_any h raw qi))
              = Inr (map snd (tagged_papers h q (entry_list (raw_papers raw))))
          \<and> papers r5 = map snd (filter fst (tagged_papers h q (entry_list (raw_papers raw))))
          \<and> list_all2 (\<lambda>x t. t = (False, x) \<or> t = (True, classify_trl_paper x))
               (entry_list (raw_papers raw)) (tagged_papers h q (entry_list (raw_papers raw)))
          \<and> get_data_list (raw_patents (raw_at_fault_any h raw qi))
              = Inr (map snd (tagged_patents q (entry_list (raw_patents raw))))
          \<and> patents r5 = map snd (filter fst (tagged_patents q (entry_list (raw_patents raw))))
          \<and> list_all2 (\<lambda>x t. t = (False, x) \<or> t = (True, classify_trl_patent x))
               (entry_list (raw_patents raw)) (tagged_patents q (entry_list (raw_patents raw)))
          \<and> get_data_list (raw_components (raw_at_fault_any h raw qi))
              = Inr (map snd (tagged_components q (entry_list (raw_components raw))))
          \<and> components r5
              = map snd (filter fst (tagged_components q (entry_list (raw_components raw))))
          \<and> list_all2 (\<lambda>x t. t = (False, x) \<or> t = (True, classify_trl_component x))
               (entry_list (raw_components raw))
               (tagged_components q (entry_list (raw_components raw)))
          \<and> raw_supply_chain (raw_at_fault_any h raw qi) = raw_supply_chain raw)"
proof -
  have p: "process_any h now raw qi = fallback e (raw_at_fault_any h raw qi)"
    using assms by (simp add: process_any_def fallback_def)
  have before: "faulted_before_stage5 h raw qi \<longrightarrow> raw_at_fault_any h raw qi = raw"
    by (cases qi)
       (auto simp: faulted_before_stage5_def raw_at_fault_any_def raw_at_fault_def isl_def)
  have after: "get_data_list (raw_papers (raw_at_fault_any h raw qi))
              = Inr (map snd (tagged_papers h q (entry_list (raw_papers raw))))
          \<and> papers r5 = map snd (filter fst (tagged_papers h q (entry_list (raw_papers raw))))
          \<and> list_all2 (\<lambda>x t. t = (False, x) \<or> t = (True, classify_trl_paper x))
               (entry_list (raw_papers raw)) (tagged_papers h q (entry_list (raw_papers raw)))
          \<and> get_data_list (raw_patents (raw_at_fault_any h raw qi))
              = Inr (map snd (tagged_patents q (entry_list (raw_patents raw))))
          \<and> patents r5 = map snd (filter fst (tagged_patents q (entry_list (raw_patents raw))))
          \<and> list_all2 (\<lambda>x t. t = (False, x) \<or> t = (True, classify_trl_patent x))
               (entry_list (raw_patents raw)) (tagged_patents q (entry_list (raw_patents raw)))
          \<and> get_data_list (raw_components (raw_at_fault_any h raw qi))
              = Inr (map snd (tagged_components q (entry_list (raw_components raw))))
          \<and> components r5
              = map snd (filter fst (tagged_components q (entry_list (raw_components raw))))
          \<and> list_all2 (\<lambda>x t. t = (False, x) \<or> t = (True, classify_trl_component x))
               (entry_list (raw_components raw))
               (tagged_components q (entry_list (raw_components raw)))
          \<and> raw_supply_chain (raw_at_fault_any h raw qi) = raw_supply_chain raw"
    if qi: "qi = WellFormed q" and r5: "stages_1_to_5 h raw q = Inr r5" for q r5
  proof -
    from stages_1_to_5_Inr [OF r5] obtain ps pts cs where
      g: "get_data_list (raw_papers raw) = Inr ps" "get_data_list (raw_patents raw) = Inr pts"
         "get_data_list (raw_components raw) = Inr cs"
      and l: "papers r5 = map classify_trl_paper (filter (paper_passes q) (deduplicate_papers h ps))"
         "patents r5 = map classify_trl_patent (filter (patent_passes q) (deduplicate_patents pts))"
         "components r5 = map classify_trl_component
            (filter (component_passes (target_regions_of q)) (deduplicate_components cs))"
      by blast
    have el: "entry_list (raw_papers raw) = ps" "entry_list (raw_patents raw) = pts"
      "entry_list (raw_components raw) = cs"
      using g by (simp_all add: entry_list_Inr)
    have raw': "raw_at_fault_any h raw qi = raw_after_stage5 h raw q"
      using qi r5 by (simp add: raw_at_fault_any_def raw_at_fault_def)
    have a1: "get_data_list (raw_papers (raw_after_stage5 h raw q))
        = Inr (map snd (tagged_papers h q ps))"
      using get_data_list_map_entry [OF g(1), of "\<lambda>ps. map snd (tagged_papers h q ps)"]
      by (simp add: raw_after_stage5_def tagged_papers_def)
    have a2: "get_data_list (raw_patents (raw_after_stage5 h raw q))
        = Inr (map snd (tagged_patents q pts))"
      using get_data_list_map_entry [OF g(2), of "\<lambda>ps. map snd (tagged_patents q ps)"]
      by (simp add: raw_after_stage5_def tagged_patents_def)
    have a3: "get_data_list (raw_components (raw_after_stage5 h raw q))
        = Inr (map snd (tagged_components q cs))"
      using get_data_list_map_entry [OF g(3), of "\<lambda>cs. map snd (tagged_components q cs)"]
      by (simp add: raw_after_stage5_def tagged_components_def)
    have b1: "papers r5 = map snd (filter fst (tagged_papers h q ps))"
      by (simp add: l tagged_papers_def tag_first_survivors deduplicate_papers_first_by)
    have b2: "patents r5 = map snd (filter fst (tagged_patents q pts))"
      by (simp add: l tagged_patents_def tag_first_survivors deduplicate_patents_first_by)
    have b3: "components r5 = map snd (filter fst (tagged_components q cs))"
      by (simp add: l tagged_components_def tag_first_survivors deduplicate_components_first_by)
    have c: "raw_supply_chain (raw_after_stage5 h raw q) = raw_supply_chain raw"
      by (simp add: raw_after_stage5_def)
    show ?thesis
      unfolding raw' el
      using a1 a2 a3 b1 b2 b3 c
      by (simp add: tagged_papers_def tagged_patents_def tagged_components_def tag_first_shape)
  qed
  from p before after show ?thesis by (simp add: fallback_def)
qed

theorem process_fault_fallback_witness:
  "run_any stub_hexdigest now0 raw_unparsed_year (WellFormed query0) = Inl TypeError
   \<and> process_any stub_hexdigest now0 raw_unparsed_year (WellFormed query0)
       = fallback TypeError raw_unparsed_year_after
   \<and> out_report (process_any stub_hexdigest now0 raw_unparsed_year (WellFormed query0))
       = [ErrorText]
   \<and> \<not> faulted_before_stage5 stub_hexdigest raw_unparsed_year (WellFormed query0)
   \<and> raw_unparsed_year_after \<noteq> raw_unparsed_year"
proof -
  note inst = process_fault_fallback [OF run_any_unparsed_year]
  have ne: "raw_unparsed_year_after \<noteq> raw_unparsed_year"
    by (simp add: raw_unparsed_year_after_def raw_unparsed_year_def raw0_def ok_response_def
        paper_unparsed_year_def paper_citing_def)
  from inst have a: "process_any stub_hexdigest now0 raw_unparsed_year (WellFormed query0)
       = fallback TypeError raw_unparsed_year_after"
    by (simp add: raw_at_fault_unparsed_year)
  from inst have b: "out_report (process_any stub_hexdigest now0 raw_unparsed_year (WellFormed query0))
       = [ErrorText]"
    by blast
  from a b run_any_unparsed_year not_faulted_before_stage5_unparsed_year ne show ?thesis
    by blast
qed
section \<open>Properties of cross-referencing and ranking\<close>

lemma set_sort_desc: "set (sort_desc k xs) = set xs"
  by (simp add: sort_desc_def)

lemma length_sort_desc: "length (sort_desc k xs) = length xs"
  by (simp add: sort_desc_def)

lemma sorted_sort_desc: "sorted_wrt (\<ge>) (map k (sort_desc k xs))"
proof -
  have "sorted (map k (sort_key k (rev xs)))" by (rule sorted_sort_key)
  then have "sorted_wrt (\<ge>) (rev (map k (sort_key k (rev xs))))"
    by (simp add: sorted_wrt_rev)
  then show ?thesis by (simp add: sort_desc_def rev_map)
qed

lemma set_take_sort_desc_subset: "set (take n (sort_desc k xs)) \<subseteq> set xs"
  using set_take_subset [of n "sort_desc k xs"] by (simp add: set_sort_desc)

lemma set_take_sort_desc_all: "length xs \<le> n \<Longrightarrow> set (take n (sort_desc k xs)) = set xs"
  by (simp add: set_sort_desc length_sort_desc)

lemma cross_reference_lists:
  "papers (cross_reference r) = papers r" "patents (cross_reference r) = patents r"
  "components (cross_reference r) = components r"
  "supply_chain (cross_reference r) = supply_chain r"
  by (simp_all add: cross_reference_def)

lemma cross_reference_edges:
  assumes "cross_references (cross_reference r) = Some x"
  shows "(\<forall>(t, n) \<in> set (paper_to_patent x).
            (\<exists>p \<in> set (papers r). paper_title p = t)
            \<and> (\<exists>pt \<in> set (patents r). patent_number pt = n))
       \<and> (\<forall>(n, c) \<in> set (patent_to_component x).
            (\<exists>pt \<in> set (patents r). patent_number pt = n)
            \<and> (\<exists>cm \<in> set (components r). part_number cm = c))
       \<and> paper_to_component x = []"
proof -
  have x: "x = \<lparr> paper_to_patent =
              concat (map (\<lambda>paper.
                  map (\<lambda>patent. (paper_title paper, patent_number patent))
                    (filter (\<lambda>patent.
                        let patent_num = lower (get_str (patent_number patent) '''')
                        in patent_num \<noteq> [] \<and> sublist patent_num (paper_text paper))
                      (patents r)))
                (papers r)),
            patent_to_component =
              concat (map (\<lambda>patent.
                  map (\<lambda>component. (patent_number patent, part_number component))
                    (filter (\<lambda>component.
                        let comp_cat = lower (get_str (category component) '''')
                        in comp_cat \<noteq> [] \<and> sublist comp_cat (patent_text patent))
                      (components r)))
                (patents r)),
            paper_to_component = [] \<rparr>"
    using assms by (simp add: cross_reference_def)
  show ?thesis unfolding x by auto
qed

lemma rank_results_lists:
  assumes "rank_results r = Inr r'"
  shows "cross_references r' = cross_references r"
    and "supply_chain r' = supply_chain r"
    and "papers r' = take 20 (sort_desc year_sort_key (papers r))"
    and "patents r' = take 20 (sort_desc (\<lambda>p. get_str (patent_filing_date p) '''') (patents r))"
    and "components r' = take 30 (sort_desc (\<lambda>c. get_int (component_trl c) 0) (components r))"
  using assms by (auto simp: rank_results_def split: if_splits)

lemma cluster_results_lists:
  "papers (cluster_results r) = papers r" "patents (cluster_results r) = patents r"
  "components (cluster_results r) = components r"
  "supply_chain (cluster_results r) = supply_chain r"
  "cross_references (cluster_results r) = cross_references r"
  by (simp_all add: cluster_results_def)

lemma run_stages_Inr:
  assumes "run_stages h now raw q = Inr out"
  obtains r5 r7 syn where
    "stages_1_to_5 h raw q = Inr r5"
    "rank_results (cross_reference r5) = Inr r7"
    "synthesize_findings (cluster_results r7) = Inr syn"
    "out_processed out = Processed (cluster_results r7)"
    "out_synthesis out = Some syn"
    "out_error out = None"
proof -
  from assms obtain r5 where r5: "stages_1_to_5 h raw q = Inr r5"
    by (auto simp: run_stages_def split: sum.splits)
  from assms r5 obtain r7 where r7: "rank_results (cross_reference r5) = Inr r7"
    by (auto simp: run_stages_def split: sum.splits)
  from assms r5 r7 obtain syn where syn: "synthesize_findings (cluster_results r7) = Inr syn"
    by (auto simp: run_stages_def Let_def split: sum.splits)
  from assms r5 r7 syn have "out_processed out = Processed (cluster_results r7)"
    "out_synthesis out = Some syn" "out_error out = None"
    by (auto simp: run_stages_def Let_def)
  with r5 r7 syn show thesis using that by blast
qed

lemma process_21_papers_edges:
  "returned_paper_to_patent (process stub_hexdigest now0 raw_21_papers query0)
     = [(Some ''Old citing paper'', Some ''EP1234567'')]"
  by code_simp

lemma process_21_papers_titles:
  "map paper_title (returned_papers (process stub_hexdigest now0 raw_21_papers query0))
     = map (\<lambda>i. Some (''Paper '' @ str_nat i)) (rev [1 ..< 21])"
  by code_simp

text \<open>
  Claim C2, as stated, at a concrete input: 21 papers pass the filters and the oldest one
  cites the patent EP1234567. Stage 6 builds the edge from that paper to the patent; stage
  7 then keeps the 20 newest papers. The returned output holds the edge, and no returned
  paper has the title the edge names.
\<close>

theorem cross_reference_edge_dangles_after_ranking:
  "(Some ''Old citing paper'', Some ''EP1234567'')
     \<in> set (returned_paper_to_patent (process stub_hexdigest now0 raw_21_papers query0))
   \<and> length (returned_papers (process stub_hexdigest now0 raw_21_papers query0)) = 20
   \<and> Some ''Old citing paper''
       \<notin> set (map paper_title (returned_papers (process stub_hexdigest now0 raw_21_papers query0)))"
proof -
  have "length (map paper_title (returned_papers (process stub_hexdigest now0 raw_21_papers query0)))
      = length (map (\<lambda>i. Some (''Paper '' @ str_nat i)) (rev [1 ..< 21]))"
    by (simp only: process_21_papers_titles)
  then have len: "length (returned_papers (process stub_hexdigest now0 raw_21_papers query0)) = 20"
    by simp
  have notin: "Some ''Old citing paper''
      \<notin> set (map paper_title (returned_papers (process stub_hexdigest now0 raw_21_papers query0)))"
    unfolding process_21_papers_titles by auto
  have mem: "(Some ''Old citing paper'', Some ''EP1234567'')
     \<in> set (returned_paper_to_patent (process stub_hexdigest now0 raw_21_papers query0))"
    by (simp add: process_21_papers_edges)
  from mem len notin show ?thesis by blast
qed

text \<open>
  Claim C2, amended: every edge built by the CrossReferencer joins records of the
  post-filter lists that enter stage 6 (a paper by its title, a patent by its patent
  number, a component by its part number). The Ranker afterwards truncates the lists to
  20 papers, 20 patents and 30 components without revisiting the edges, so the returned
  lists are subsets of those lists, and equal to them as sets (hence no edge dangles in the
  returned output) whenever the list is within its cap.
\<close>

theorem cross_reference_edges_present_before_ranking:
  assumes "run_stages h now raw q = Inr out"
  shows "\<exists>r5 r x.
       stages_1_to_5 h raw q = Inr r5
     \<and> out_processed out = Processed r
     \<and> cross_references r = Some x
     \<and> (\<forall>(t, n) \<in> set (paper_to_patent x).
          (\<exists>p \<in> set (papers r5). paper_title p = t)
          \<and> (\<exists>pt \<in> set (patents r5). patent_number pt = n))
     \<and> (\<forall>(n, c) \<in> set (patent_to_component x).
          (\<exists>pt \<in> set (patents r5). patent_number pt = n)
          \<and> (\<exists>cm \<in> set (components r5). part_number cm = c))
     \<and> paper_to_component x = []
     \<and> set (papers r) \<subseteq> set (papers r5)
     \<and> set (patents r) \<subseteq> set (patents r5)
     \<and> set (components r) \<subseteq> set (components r5)
     \<and> (length (papers r5) \<le> 20 \<longrightarrow> set (papers r) = set (papers r5))
     \<and> (length (patents r5) \<le> 20 \<longrightarrow> set (patents r) = set (patents r5))
     \<and> (length (components r5) \<le> 30 \<longrightarrow> set (components r) = set (components r5))"
proof -
  from assms obtain r5 r7 syn where
    r5: "stages_1_to_5 h raw q = Inr r5"
    and r7: "rank_results (cross_reference r5) = Inr r7"
    and out: "out_processed out = Processed (cluster_results r7)"
    by (rule run_stages_Inr)
  obtain x where x: "cross_references (cross_reference r5) = Some x"
    by (simp add: cross_reference_def)
  note rk = rank_results_lists [OF r7]
  have cx: "cross_references (cluster_results r7) = Some x"
    by (simp add: cluster_results_lists rk x)
  note edges = cross_reference_edges [OF x]
  have subs: "set (papers (cluster_results r7)) \<subseteq> set (papers r5)"
    "set (patents (cluster_results r7)) \<subseteq> set (patents r5)"
    "set (components (cluster_results r7)) \<subseteq> set (components r5)"
    by (simp_all add: cluster_results_lists rk cross_reference_lists set_take_sort_desc_subset)
  have eqs: "length (papers r5) \<le> 20 \<longrightarrow> set (papers (cluster_results r7)) = set (papers r5)"
    "length (patents r5) \<le> 20 \<longrightarrow> set (patents (cluster_results r7)) = set (patents r5)"
    "length (components r5) \<le> 30 \<longrightarrow> set (components (cluster_results r7)) = set (components r5)"
    by (simp_all add: cluster_results_lists rk cross_reference_lists set_take_sort_desc_all)
  from r5 out cx edges subs eqs show ?thesis by blast
qed

lemma run_stages_xref_succeeds: "\<not> isl (run_stages stub_hexdigest now0 raw_xref query0)"
  by code_simp

lemma stages_1_to_5_xref_papers:
  "(case stages_1_to_5 stub_hexdigest raw_xref query0 of
      Inl e \<Rightarrow> False | Inr r \<Rightarrow> length (papers r) = 1)"
  by code_simp

lemma process_xref_edges:
  "returned_paper_to_patent (process stub_hexdigest now0 raw_xref query0)
     = [(Some ''Old citing paper'', Some ''EP1234567'')]"
  by code_simp

theorem cross_reference_edges_present_before_ranking_witness:
  "\<exists>out r5 r x.
       run_stages stub_hexdigest now0 raw_xref query0 = Inr out
     \<and> stages_1_to_5 stub_hexdigest raw_xref query0 = Inr r5
     \<and> out_processed out = Processed r
     \<and> cross_references r = Some x
     \<and> (Some ''Old citing paper'', Some ''EP1234567'') \<in> set (paper_to_patent x)
     \<and> (\<exists>p \<in> set (papers r5). paper_title p = Some ''Old citing paper'')
     \<and> (\<exists>pt \<in> set (patents r5). patent_number pt = Some ''EP1234567'')
     \<and> length (papers r5) \<le> 20
     \<and> set (papers r) = set (papers r5)"
proof -
  obtain out where h: "run_stages stub_hexdigest now0 raw_xref query0 = Inr out"
    using run_stages_xref_succeeds
    by (cases "run_stages stub_hexdigest now0 raw_xref query0") auto
  from cross_reference_edges_present_before_ranking [OF h] obtain r5 r x where
    r5: "stages_1_to_5 stub_hexdigest raw_xref query0 = Inr r5"
    and r: "out_processed out = Processed r"
    and x: "cross_references r = Some x"
    and edges: "\<forall>(t, n) \<in> set (paper_to_patent x).
          (\<exists>p \<in> set (papers r5). paper_title p = t)
          \<and> (\<exists>pt \<in> set (patents r5). patent_number pt = n)"
    and cap: "length (papers r5) \<le> 20 \<longrightarrow> set (papers r) = set (papers r5)"
    by blast
  have len: "length (papers r5) \<le> 20"
    using stages_1_to_5_xref_papers r5 by simp
  have "process stub_hexdigest now0 raw_xref query0 = out"
    using h by (simp add: process_def)
  then have mem: "(Some ''Old citing paper'', Some ''EP1234567'') \<in> set (paper_to_patent x)"
    using process_xref_edges r x by (simp add: returned_paper_to_patent_def)
  from edges mem have
    "(\<exists>p \<in> set (papers r5). paper_title p = Some ''Old citing paper'')
     \<and> (\<exists>pt \<in> set (patents r5). patent_number pt = Some ''EP1234567'')"
    by blast
  with h r5 r x mem len cap show ?thesis by blast
qed

section \<open>Properties of the component recommendations\<close>

lemma process_two_components:
  "returned_recommendations (process stub_hexdigest now0 raw_two_components query0)
     = [rec_obsolete, rec_active8]"
  by code_simp

text \<open>
  Claim C4 at a concrete input of the pipeline: two components without stock data and
  without an efficiency, an Active one at TRL 8 listed first and an Obsolete one at TRL 9.
  The composite score, as \<^verbatim>\<open>ReportGenerator._calculate_component_score\<close> computes it, is 55
  for the first and 30 for the second, so the claim puts the Active one first. The
  synthesis of the pipeline recommends the Obsolete one first: its recommendations are
  the head of the Ranker's TRL order, and they carry a rationale but no score, pros or
  cons.
\<close>

theorem recommendations_not_in_score_order:
  "returned_recommendations (process stub_hexdigest now0 raw_two_components query0)
     = [rec_obsolete, rec_active8]
   \<and> calculate_component_score (rec_trl rec_obsolete) (rec_lifecycle rec_obsolete) None None = 30
   \<and> calculate_component_score (rec_trl rec_active8) (rec_lifecycle rec_active8) None None = 55"
  by (simp add: process_two_components calculate_component_score_def rec_obsolete_def
      rec_active8_def get_int_def get_str_def total_stock_def availability_values_def)

lemma recommend_components_length:
  "length (recommend_components cs scs) = min 5 (length cs)"
  by (simp add: recommend_components_def min.commute)

lemma recommend_components_nth:
  assumes "i < length (recommend_components cs scs)"
  shows "recommend_components cs scs ! i =
     \<lparr> rec_part_number = part_number (cs ! i),
       rec_manufacturer = manufacturer (cs ! i),
       rec_trl = component_trl (cs ! i),
       rec_lifecycle = lifecycle (cs ! i),
       rec_rationale =
         (if get_int (component_trl (cs ! i)) 0 \<ge> 8 then [''Production-proven''] else [])
         @ (if lifecycle (cs ! i) = Some ''Active'' then [''Active lifecycle''] else [])
         @ (case find (\<lambda>sc. sc_part_number sc = part_number (cs ! i)) (rev scs) of
              None \<Rightarrow> []
            | Some sc_data \<Rightarrow>
                (let ts = total_stock (sc_availability sc_data)
                 in if ts > 1000
                    then [''Good availability ('' @ str_int ts @ '' units)'']
                    else [])) \<rparr>"
  using assms by (simp add: recommend_components_def)

text \<open>
  What the synthesis of the pipeline returns instead: the returned component list is in
  descending TRL order, and the recommendations are made, in that order, from its first
  five components. Each carries the part number, manufacturer, TRL and lifecycle of its
  component; its rationale holds \<^verbatim>\<open>Production-proven\<close> exactly when the TRL is at least 8,
  \<^verbatim>\<open>Active lifecycle\<close> exactly when the lifecycle is Active, and some
  \<^verbatim>\<open>Good availability\<close> entry exactly when the supply-chain record of that part number
  has a total stock above 1000.
\<close>

theorem recommendations_follow_rank:
  assumes "run_stages h now raw q = Inr out"
  shows "\<exists>r s.
       out_processed out = Processed r
     \<and> out_synthesis out = Some s
     \<and> sorted_wrt (\<ge>) (map (\<lambda>c. get_int (component_trl c) 0) (components r))
     \<and> length (component_recommendations s) = min 5 (length (components r))
     \<and> (\<forall>i < length (component_recommendations s).
          rec_part_number (component_recommendations s ! i) = part_number (components r ! i)
        \<and> rec_manufacturer (component_recommendations s ! i) = manufacturer (components r ! i)
        \<and> rec_trl (component_recommendations s ! i) = component_trl (components r ! i)
        \<and> rec_lifecycle (component_recommendations s ! i) = lifecycle (components r ! i)
        \<and> (''Production-proven'' \<in> set (rec_rationale (component_recommendations s ! i))
             \<longleftrightarrow> get_int (component_trl (components r ! i)) 0 \<ge> 8)
        \<and> (''Active lifecycle'' \<in> set (rec_rationale (component_recommendations s ! i))
             \<longleftrightarrow> lifecycle (components r ! i) = Some ''Active'')
        \<and> ((\<exists>n. ''Good availability ('' @ str_int n @ '' units)''
                   \<in> set (rec_rationale (component_recommendations s ! i)))
             \<longleftrightarrow> (\<exists>sc. find (\<lambda>sc. sc_part_number sc = part_number (components r ! i))
                            (rev (supply_chain r)) = Some sc
                       \<and> total_stock (sc_availability sc) > 1000)))"
proof -
  from assms obtain r5 r7 syn where
    r7: "rank_results (cross_reference r5) = Inr r7"
    and syn: "synthesize_findings (cluster_results r7) = Inr syn"
    and out: "out_processed out = Processed (cluster_results r7)" "out_synthesis out = Some syn"
    by (rule run_stages_Inr)
  let ?r = "cluster_results r7"
  have sorted: "sorted_wrt (\<ge>) (map (\<lambda>c. get_int (component_trl c) 0) (components ?r))"
    unfolding cluster_results_lists rank_results_lists(5) [OF r7] take_map [symmetric]
    by (rule sorted_wrt_take) (rule sorted_sort_desc)
  have recs: "component_recommendations syn = recommend_components (components ?r) (supply_chain ?r)"
    using syn by (auto simp: synthesize_findings_def split: sum.splits)
  have len: "length (component_recommendations syn) = min 5 (length (components ?r))"
    by (simp add: recs recommend_components_length)
  have each: "rec_part_number (component_recommendations syn ! i) = part_number (components ?r ! i)
        \<and> rec_manufacturer (component_recommendations syn ! i) = manufacturer (components ?r ! i)
        \<and> rec_trl (component_recommendations syn ! i) = component_trl (components ?r ! i)
        \<and> rec_lifecycle (component_recommendations syn ! i) = lifecycle (components ?r ! i)
        \<and> (''Production-proven'' \<in> set (rec_rationale (component_recommendations syn ! i))
             \<longleftrightarrow> get_int (component_trl (components ?r ! i)) 0 \<ge> 8)
        \<and> (''Active lifecycle'' \<in> set (rec_rationale (component_recommendations syn ! i))
             \<longleftrightarrow> lifecycle (components ?r ! i) = Some ''Active'')
        \<and> ((\<exists>n. ''Good availability ('' @ str_int n @ '' units)''
                   \<in> set (rec_rationale (component_recommendations syn ! i)))
             \<longleftrightarrow> (\<exists>sc. find (\<lambda>sc. sc_part_number sc = part_number (components ?r ! i))
                            (rev (supply_chain ?r)) = Some sc
                       \<and> total_stock (sc_availability sc) > 1000))"
    if "i < length (component_recommendations syn)" for i
  proof -
    have i: "i < length (recommend_components (components ?r) (supply_chain ?r))"
      using that by (simp add: recs)
    show ?thesis
      unfolding recs recommend_components_nth [OF i]
      by (auto simp: Let_def split: option.splits) metis
  qed
  from out sorted len each show ?thesis by blast
qed

lemma run_stages_two_components_succeeds:
  "\<not> isl (run_stages stub_hexdigest now0 raw_two_components query0)"
  by code_simp

theorem recommendations_follow_rank_witness:
  "\<exists>out r s.
       run_stages stub_hexdigest now0 raw_two_components query0 = Inr out
     \<and> out_processed out = Processed r
     \<and> out_synthesis out = Some s
     \<and> component_recommendations s = [rec_obsolete, rec_active8]
     \<and> (0::nat) < length (component_recommendations s)
     \<and> rec_part_number (component_recommendations s ! 0) = part_number (components r ! 0)
     \<and> sorted_wrt (\<ge>) (map (\<lambda>c. get_int (component_trl c) 0) (components r))"
proof -
  obtain out where h: "run_stages stub_hexdigest now0 raw_two_components query0 = Inr out"
    using run_stages_two_components_succeeds
    by (cases "run_stages stub_hexdigest now0 raw_two_components query0") auto
  from recommendations_follow_rank [OF h] obtain r s where
    r: "out_processed out = Processed r"
    and s: "out_synthesis out = Some s"
    and sorted: "sorted_wrt (\<ge>) (map (\<lambda>c. get_int (component_trl c) 0) (components r))"
    and each: "\<forall>i < length (component_recommendations s).
          rec_part_number (component_recommendations s ! i) = part_number (components r ! i)"
    by blast
  have "process stub_hexdigest now0 raw_two_components query0 = out"
    using h by (simp add: process_def)
  then have recs: "component_recommendations s = [rec_obsolete, rec_active8]"
    using process_two_components s by (simp add: returned_recommendations_def)
  then have pos: "(0::nat) < length (component_recommendations s)" by simp
  with each have "rec_part_number (component_recommendations s ! 0) = part_number (components r ! 0)"
    by blast
  with h r s recs pos sorted show ?thesis by blast
qed

end
